theory Spec2Isabelle
  imports Main "HOL-Library.Sublist" "HOL-Library.AList"
begin

section \<open>Python values\<close>

text \<open>
  The repository is dynamically typed Python that shuffles JSON documents between the
  module arguments and the Portainer API.  Values are therefore modelled by one datatype.
  A \<open>dict\<close> is an association list in insertion order (Python dicts iterate in insertion
  order); a well-formed dict has pairwise distinct keys.  Floating point numbers are not
  modelled.
\<close>

datatype pyval =
    PNone
  | PBool bool
  | PInt int
  | PStr string
  | PBytes string
  | PList "pyval list"
  | PTuple "pyval list"
  | PDict "(string \<times> pyval) list"

type_synonym dict = "(string \<times> pyval) list"

text \<open>
  Python's \<^verbatim>\<open>==\<close> on these values: \<^verbatim>\<open>True == 1\<close> and \<^verbatim>\<open>False == 0\<close> hold, lists
  and tuples compare element by element, dicts compare as finite maps whatever the order
  of their items, and values of different kinds are unequal.
\<close>

fun py_eq :: "pyval \<Rightarrow> pyval \<Rightarrow> bool" where
  "py_eq PNone w = (w = PNone)"
| "py_eq (PBool a) w =
     (case w of PBool b \<Rightarrow> a = b | PInt j \<Rightarrow> (if a then 1 else 0) = j | _ \<Rightarrow> False)"
| "py_eq (PInt i) w =
     (case w of PBool b \<Rightarrow> i = (if b then 1 else 0) | PInt j \<Rightarrow> i = j | _ \<Rightarrow> False)"
| "py_eq (PStr s) w = (w = PStr s)"
| "py_eq (PBytes s) w = (w = PBytes s)"
| "py_eq (PList xs) w = (case w of PList ys \<Rightarrow> list_all2 py_eq xs ys | _ \<Rightarrow> False)"
| "py_eq (PTuple xs) w = (case w of PTuple ys \<Rightarrow> list_all2 py_eq xs ys | _ \<Rightarrow> False)"
| "py_eq (PDict a) w =
     (case w of
        PDict b \<Rightarrow>
          length a = length b \<and>
          (\<forall>(k, v) \<in> set a. case map_of b k of None \<Rightarrow> False | Some u \<Rightarrow> py_eq v u)
      | _ \<Rightarrow> False)"

text \<open>Truthiness, as tested by \<^verbatim>\<open>if x:\<close>, \<^verbatim>\<open>not x\<close> and \<^verbatim>\<open>x or y\<close>.\<close>

fun truthy :: "pyval \<Rightarrow> bool" where
  "truthy PNone = False"
| "truthy (PBool b) = b"
| "truthy (PInt i) = (i \<noteq> 0)"
| "truthy (PStr s) = (s \<noteq> [])"
| "truthy (PBytes s) = (s \<noteq> [])"
| "truthy (PList xs) = (xs \<noteq> [])"
| "truthy (PTuple xs) = (xs \<noteq> [])"
| "truthy (PDict d) = (d \<noteq> [])"

text \<open>\<^verbatim>\<open>d.get(k)\<close>: the value stored under \<open>k\<close>, or \<^verbatim>\<open>None\<close>.\<close>

definition dict_get :: "dict \<Rightarrow> string \<Rightarrow> pyval" where
  "dict_get d k = (case map_of d k of None \<Rightarrow> PNone | Some v \<Rightarrow> v)"

text \<open>
  \<^verbatim>\<open>d[k] = v\<close>: an existing key keeps its position, a new key goes to the end.
\<close>

definition dict_set :: "dict \<Rightarrow> string \<Rightarrow> pyval \<Rightarrow> dict" where
  "dict_set d k v = AList.update k v d"

definition dict_keys :: "dict \<Rightarrow> string set" where
  "dict_keys d = fst ` set d"

text \<open>\<^verbatim>\<open>xs or []\<close> (and \<^verbatim>\<open>d or {}\<close>) for an optional list or dict.\<close>

definition or_empty :: "'a list option \<Rightarrow> 'a list" where
  "or_empty xs = (case xs of None \<Rightarrow> [] | Some ys \<Rightarrow> ys)"

text \<open>\<^verbatim>\<open>d.pop(k, None)\<close> and \<^verbatim>\<open>d.update(other)\<close>.\<close>

definition dict_pop :: "dict \<Rightarrow> string \<Rightarrow> dict" where
  "dict_pop d k = AList.delete k d"

definition dict_update :: "dict \<Rightarrow> dict \<Rightarrow> dict" where
  "dict_update d other = fold (\<lambda>(k, v) d'. dict_set d' k v) other d"

text \<open>
  \<^verbatim>\<open>str(x)\<close>, as used by f-strings.  Integers are written in decimal.  The rendering of
  containers and bytes (Python's \<^verbatim>\<open>repr\<close>) is left unspecified: no path or message of
  the repository is built from one.
\<close>

fun str_nat :: "nat \<Rightarrow> string" where
  "str_nat n = (if n < 10 then [char_of (48 + n)] else str_nat (n div 10) @ [char_of (48 + n mod 10)])"

declare str_nat.simps [simp del]

definition str_int :: "int \<Rightarrow> string" where
  "str_int i = (if i < 0 then CHR ''-'' # str_nat (nat (- i)) else str_nat (nat i))"

fun py_str :: "pyval \<Rightarrow> string" where
  "py_str PNone = ''None''"
| "py_str (PBool b) = (if b then ''True'' else ''False'')"
| "py_str (PInt i) = str_int i"
| "py_str (PStr s) = s"
| "py_str v = undefined v"

text \<open>The single quote, for the messages that contain one.\<close>

definition sq :: string where
  "sq = [CHR 0x27]"

fun py_type_name :: "pyval \<Rightarrow> string" where
  "py_type_name PNone = ''NoneType''"
| "py_type_name (PBool b) = ''bool''"
| "py_type_name (PInt i) = ''int''"
| "py_type_name (PStr s) = ''str''"
| "py_type_name (PBytes s) = ''bytes''"
| "py_type_name (PList xs) = ''list''"
| "py_type_name (PTuple xs) = ''tuple''"
| "py_type_name (PDict d) = ''dict''"

text \<open>\<^verbatim>\<open>path.split(".")\<close>.\<close>

fun split_on :: "char \<Rightarrow> string \<Rightarrow> string list" where
  "split_on c [] = [[]]"
| "split_on c (x # xs) =
     (if x = c then [] # split_on c xs
      else (case split_on c xs of [] \<Rightarrow> [[x]] | w # ws \<Rightarrow> (x # w) # ws))"

section \<open>Field catalog (portainer\_fields.py)\<close>

abbreviation (input) PF_STACK_ID :: string where "PF_STACK_ID \<equiv> ''Id''"
abbreviation (input) PF_STACK_NAME :: string where "PF_STACK_NAME \<equiv> ''Name''"
abbreviation (input) PF_STACK_ENDPOINT_ID :: string where "PF_STACK_ENDPOINT_ID \<equiv> ''EndpointId''"
abbreviation (input) PF_STACK_ENDPOINT_ID_QUERY :: string where "PF_STACK_ENDPOINT_ID_QUERY \<equiv> ''endpointId''"
abbreviation (input) PF_STACK_ADDITIONAL_FILES :: string where "PF_STACK_ADDITIONAL_FILES \<equiv> ''AdditionalFiles''"
abbreviation (input) PF_STACK_AUTOUPDATE :: string where "PF_STACK_AUTOUPDATE \<equiv> ''AutoUpdate''"
abbreviation (input) PF_STACK_COMPOSE_FILE :: string where "PF_STACK_COMPOSE_FILE \<equiv> ''ComposeFile''"
abbreviation (input) PF_STACK_ENV :: string where "PF_STACK_ENV \<equiv> ''Env''"
abbreviation (input) PF_STACK_PRUNE :: string where "PF_STACK_PRUNE \<equiv> ''Prune''"
abbreviation (input) PF_STACK_PULL_IMAGES :: string where "PF_STACK_PULL_IMAGES \<equiv> ''PullImage''"
abbreviation (input) PF_STACK_REPOSITORY_AUTHENTICATION :: string where "PF_STACK_REPOSITORY_AUTHENTICATION \<equiv> ''RepositoryAuthentication''"
abbreviation (input) PF_STACK_REPOSITORY_AUTHORIZATION_TYPE :: string where "PF_STACK_REPOSITORY_AUTHORIZATION_TYPE \<equiv> ''RepositoryAuthorizationType''"
abbreviation (input) PF_STACK_REPOSITORY_PASSWORD :: string where "PF_STACK_REPOSITORY_PASSWORD \<equiv> ''RepositoryPassword''"
abbreviation (input) PF_STACK_REPOSITORY_REFERENCE_NAME :: string where "PF_STACK_REPOSITORY_REFERENCE_NAME \<equiv> ''RepositoryReferenceName''"
abbreviation (input) PF_STACK_REPOSITORY_URL :: string where "PF_STACK_REPOSITORY_URL \<equiv> ''RepositoryURL''"
abbreviation (input) PF_STACK_REPOSITORY_USERNAME :: string where "PF_STACK_REPOSITORY_USERNAME \<equiv> ''RepositoryUsername''"
abbreviation (input) PF_STACK_SWARM_ID :: string where "PF_STACK_SWARM_ID \<equiv> ''SwarmId''"
abbreviation (input) PF_STACK_SWARM_ID_FORM_DATA :: string where "PF_STACK_SWARM_ID_FORM_DATA \<equiv> ''SwarmID''"
abbreviation (input) PF_STACK_TLS_SKIP_VERIFY :: string where "PF_STACK_TLS_SKIP_VERIFY \<equiv> ''TlsskipVerify''"
abbreviation (input) PF_STACK_FILE :: string where "PF_STACK_FILE \<equiv> ''file''"
abbreviation (input) PF_STACK_FILE_CONTENT :: string where "PF_STACK_FILE_CONTENT \<equiv> ''StackFileContent''"
abbreviation (input) PF_STACK_STATUS :: string where "PF_STACK_STATUS \<equiv> ''Status''"
abbreviation (input) PF_STACK_GIT_CONFIGS :: string where "PF_STACK_GIT_CONFIGS \<equiv> ''GitConfig''"
abbreviation (input) PF_STACK_GIT_CONFIGS_AUTHENTICATION :: string where "PF_STACK_GIT_CONFIGS_AUTHENTICATION \<equiv> ''Authentication''"
abbreviation (input) PF_STACK_GIT_CONFIGS_AUTH_TYPE :: string where "PF_STACK_GIT_CONFIGS_AUTH_TYPE \<equiv> ''Authentication.AuthorizationType''"
abbreviation (input) PF_STACK_GIT_CONFIGS_USERNAME :: string where "PF_STACK_GIT_CONFIGS_USERNAME \<equiv> ''Authentication.Username''"
abbreviation (input) PF_STACK_GIT_CONFIGS_REFS_NAME :: string where "PF_STACK_GIT_CONFIGS_REFS_NAME \<equiv> ''ReferenceName''"
abbreviation (input) PF_STACK_GIT_CONFIGS_TLS_SKIP_VERIFY :: string where "PF_STACK_GIT_CONFIGS_TLS_SKIP_VERIFY \<equiv> ''TLSSkipVerify''"
abbreviation (input) PF_CONFIG_ID :: string where "PF_CONFIG_ID \<equiv> ''ID''"
abbreviation (input) PF_CONFIG_NAME :: string where "PF_CONFIG_NAME \<equiv> ''Name''"
abbreviation (input) PF_CONFIG_DATA :: string where "PF_CONFIG_DATA \<equiv> ''Data''"

section \<open>Errors\<close>

text \<open>
  Every exception the modelled code raises is a value.  \<open>FailJson\<close> stands for
  \<^verbatim>\<open>module.fail_json(msg=..., **kwargs)\<close>, which ends the process with a failure payload
  (\<^verbatim>\<open>SystemExit\<close>, so no \<^verbatim>\<open>except Exception\<close> catches it).
\<close>

record api_error =
  ae_message :: string
  ae_status :: int
  ae_body :: string
  ae_url :: string
  ae_method :: string
  ae_data :: dict

datatype error =
    ValueError string
  | KeyError string
  | TypeError string
  | AttributeError string
  | ItemNotExists string
  | MultipleItemsReturned string "pyval list"
  | PortainerApiError api_error
  | FailJson string dict

section \<open>PortainerClient.\_make\_request (portainer\_client.py)\<close>

text \<open>
  The request itself is made by Ansible's \<^verbatim>\<open>fetch_url\<close>; it and the library functions
  \<^verbatim>\<open>json.dumps\<close>, \<^verbatim>\<open>json.loads\<close>, \<^verbatim>\<open>urlencode\<close> and the multipart encoder (which
  draws a random boundary) are parameters of the model.  \<^verbatim>\<open>fetch_url\<close> returns a response
  object or \<^verbatim>\<open>None\<close>, here the body that \<^verbatim>\<open>resp.read()\<close> yields, and an \<^verbatim>\<open>info\<close> dict.
\<close>

datatype request_method = GET | PUT | POST | DELETE

datatype body_format = JSON | FORM_DATA

record info =
  i_status :: int
  i_msg :: string
  i_body :: "string option"

record fetch_args =
  f_url :: string
  f_method :: string
  f_headers :: "(string \<times> string) list"
  f_data :: "string option"
  f_timeout :: int

record externals =
  json_dumps :: "dict \<Rightarrow> string"
  json_loads :: "string \<Rightarrow> error + pyval"
  urlencode :: "dict \<Rightarrow> string"
  encode_multipart_formdata :: "dict \<Rightarrow> string \<times> string"
  fetch_url :: "fetch_args \<Rightarrow> string option \<times> info"

record client =
  portainer_url :: string
  portainer_token :: string
  timeout :: int
  headers :: "(string \<times> string) list"

datatype response = Info info | Parsed pyval

fun method_value :: "request_method \<Rightarrow> string" where
  "method_value GET = ''GET''"
| "method_value PUT = ''PUT''"
| "method_value POST = ''POST''"
| "method_value DELETE = ''DELETE''"

text \<open>\<^verbatim>\<open>{k: str(v).lower() if isinstance(v, bool) else v for k, v in params.items()}\<close>.\<close>

definition params_converted :: "dict \<Rightarrow> dict" where
  "params_converted params =
     map (\<lambda>(k, v). (k, case v of PBool b \<Rightarrow> PStr (if b then ''true'' else ''false'') | _ \<Rightarrow> v)) params"

definition request_url :: "externals \<Rightarrow> client \<Rightarrow> string \<Rightarrow> dict option \<Rightarrow> string" where
  "request_url ext self endpoint params =
     (let url = portainer_url self @ ''/api'' @ endpoint in
      if or_empty params \<noteq> [] then url @ ''?'' @ urlencode ext (params_converted (or_empty params))
      else url)"

text \<open>
  \<^verbatim>\<open>
  def _make_request(self, method, endpoint, return_info=False, params=None, data=None,
                    body_format=None):
      url = f"{self.portainer_url}/api{endpoint}"
      body_format = BodyFormat.JSON if not body_format else body_format
      data = {} if data is None else data
      if params:
          ...
          url = f"{url}?{urlencode(params_converted)}"
      _data = None
      if body_format == BodyFormat.JSON:
          _data = json.dumps(data)
      elif body_format == BodyFormat.FORM_DATA:
          _data, content_type = encode_multipart_formdata(data)
          self.headers.update({"Content-Type": content_type})
      resp, info = fetch_url(self.module, url, method=method.value, headers=self.headers,
                             data=_data, force=True, timeout=self.timeout)
      if return_info:
          return info
      if info["status"] not in [200, 201, 204]:
          raise PortainerApiError(f"{info['msg']}", status=info["status"],
              body=info.get("body", ""), url=url, method=method.value, data=data)
      if resp:
          body = resp.read()
          if body:
              return json.loads(body)
      return None
  \<close>
  The function returns its result and the client, whose headers the multipart branch
  updates.  \<open>prepare_request\<close> is everything up to the call of \<^verbatim>\<open>fetch_url\<close>: its
  arguments and the client afterwards.
\<close>

definition prepare_request ::
  "externals \<Rightarrow> client \<Rightarrow> request_method \<Rightarrow> string \<Rightarrow> dict option \<Rightarrow> dict option
     \<Rightarrow> body_format option \<Rightarrow> fetch_args \<times> client" where
  "prepare_request ext self method endpoint params data0 body_format0 =
     (let url = request_url ext self endpoint params;
          body_format = (case body_format0 of None \<Rightarrow> JSON | Some b \<Rightarrow> b);
          data = or_empty data0;
          (data', self') =
            (case body_format of
               JSON \<Rightarrow> (json_dumps ext data, self)
             | FORM_DATA \<Rightarrow>
                 (let (body, content_type) = encode_multipart_formdata ext data
                  in (body, self\<lparr>headers := AList.update ''Content-Type'' content_type (headers self)\<rparr>)))
      in (\<lparr>f_url = url, f_method = method_value method, f_headers = headers self',
           f_data = Some data', f_timeout = timeout self\<rparr>, self'))"

definition make_request ::
  "externals \<Rightarrow> client \<Rightarrow> request_method \<Rightarrow> string \<Rightarrow> bool \<Rightarrow> dict option \<Rightarrow> dict option
     \<Rightarrow> body_format option \<Rightarrow> (error + response) \<times> client" where
  "make_request ext self method endpoint return_info params data0 body_format0 =
     (let url = request_url ext self endpoint params;
          data = or_empty data0;
          (args, self') = prepare_request ext self method endpoint params data0 body_format0;
          (resp, info) = fetch_url ext args
      in if return_info then (Inr (Info info), self')
         else if i_status info \<notin> set [200, 201, 204] then
           (Inl (PortainerApiError
                  \<lparr>ae_message = i_msg info, ae_status = i_status info,
                   ae_body = (case i_body info of None \<Rightarrow> [] | Some b \<Rightarrow> b),
                   ae_url = url, ae_method = method_value method, ae_data = data\<rparr>), self')
         else
           (case resp of
              None \<Rightarrow> (Inr (Parsed PNone), self')
            | Some body \<Rightarrow>
                if body \<noteq> [] then
                  (case json_loads ext body of
                     Inl e \<Rightarrow> (Inl e, self')
                   | Inr v \<Rightarrow> (Inr (Parsed v), self'))
                else (Inr (Parsed PNone), self')))"

section \<open>The client, as the CRUD layer sees it (portainer\_client.py)\<close>

text \<open>
  The CRUD classes reach the API through the four verbs of \<^verbatim>\<open>PortainerClient\<close>, each
  of which is \<^verbatim>\<open>_make_request\<close> with the method fixed.  A \<open>call\<close> records the arguments
  of one request; the answers come from a \<open>server\<close>, which may depend on the calls
  made so far.  The log of calls is the state that every operation threads.
\<close>

record call =
  c_method :: request_method
  c_endpoint :: string
  c_params :: "dict option"
  c_data :: "dict option"
  c_body_format :: "body_format option"

type_synonym server = "call list \<Rightarrow> call \<Rightarrow> error + pyval"

type_synonym 'a io = "call list \<Rightarrow> (error + 'a) \<times> call list"

definition client_request :: "server \<Rightarrow> call \<Rightarrow> pyval io" where
  "client_request srv c log = (srv log c, log @ [c])"

definition client_get :: "server \<Rightarrow> string \<Rightarrow> dict option \<Rightarrow> pyval io" where
  "client_get srv endpoint params =
     client_request srv \<lparr>c_method = GET, c_endpoint = endpoint, c_params = params,
       c_data = None, c_body_format = None\<rparr>"

definition client_post ::
  "server \<Rightarrow> string \<Rightarrow> dict option \<Rightarrow> body_format option \<Rightarrow> dict option \<Rightarrow> pyval io" where
  "client_post srv endpoint data body_format params =
     client_request srv \<lparr>c_method = POST, c_endpoint = endpoint, c_params = params,
       c_data = data, c_body_format = body_format\<rparr>"

definition client_put ::
  "server \<Rightarrow> string \<Rightarrow> dict option \<Rightarrow> body_format option \<Rightarrow> dict option \<Rightarrow> pyval io" where
  "client_put srv endpoint data body_format params =
     client_request srv \<lparr>c_method = PUT, c_endpoint = endpoint, c_params = params,
       c_data = data, c_body_format = body_format\<rparr>"

definition client_delete :: "server \<Rightarrow> string \<Rightarrow> dict option \<Rightarrow> pyval io" where
  "client_delete srv endpoint params =
     client_request srv \<lparr>c_method = DELETE, c_endpoint = endpoint, c_params = params,
       c_data = None, c_body_format = None\<rparr>"

section \<open>The CRUD classes (portainer\_crud.py)\<close>

subsection \<open>Helpers\<close>

text \<open>
  \<^verbatim>\<open>
  def get_nested(d, path, default=None):
      try:
          return reduce(lambda x, key: x[key], path.split("."), d)
      except (KeyError, TypeError):
          return default
  \<close>
  Subscripting with a string key succeeds on a dict that has the key; on every other
  value it raises \<^verbatim>\<open>KeyError\<close> or \<^verbatim>\<open>TypeError\<close>, both caught.
\<close>

fun get_nested_keys :: "pyval \<Rightarrow> string list \<Rightarrow> pyval option" where
  "get_nested_keys x [] = Some x"
| "get_nested_keys x (key # keys) =
     (case x of
        PDict d \<Rightarrow> (case map_of d key of None \<Rightarrow> None | Some y \<Rightarrow> get_nested_keys y keys)
      | _ \<Rightarrow> None)"

definition get_nested :: "pyval \<Rightarrow> string \<Rightarrow> pyval \<Rightarrow> pyval" where
  "get_nested d path dflt =
     (case get_nested_keys d (split_on CHR ''.'' path) of None \<Rightarrow> dflt | Some v \<Rightarrow> v)"

text \<open>Sequencing of computations that may raise.\<close>

definition bind_err :: "error + 'a \<Rightarrow> ('a \<Rightarrow> error + 'b) \<Rightarrow> error + 'b" where
  "bind_err m f = (case m of Inl e \<Rightarrow> Inl e | Inr x \<Rightarrow> f x)"

definition bind_io :: "'a io \<Rightarrow> ('a \<Rightarrow> 'b io) \<Rightarrow> 'b io" where
  "bind_io m f log = (case m log of (Inl e, log') \<Rightarrow> (Inl e, log') | (Inr x, log') \<Rightarrow> f x log')"

definition raise_io :: "error \<Rightarrow> 'a io" where
  "raise_io e log = (Inl e, log)"

definition return_io :: "'a \<Rightarrow> 'a io" where
  "return_io x log = (Inr x, log)"

definition lift_io :: "error + 'a \<Rightarrow> 'a io" where
  "lift_io m log = (m, log)"

text \<open>A list comprehension \<^verbatim>\<open>[f(x) for x in xs]\<close> stops at the first element that raises.\<close>

fun map_err :: "('a \<Rightarrow> error + 'b) \<Rightarrow> 'a list \<Rightarrow> error + 'b list" where
  "map_err f [] = Inr []"
| "map_err f (x # xs) =
     (case f x of
        Inl e \<Rightarrow> Inl e
      | Inr y \<Rightarrow> (case map_err f xs of Inl e \<Rightarrow> Inl e | Inr ys \<Rightarrow> Inr (y # ys)))"

text \<open>Iterating a value (\<^verbatim>\<open>for item in x\<close>): a dict yields its keys, a string its characters.\<close>

fun py_iter :: "pyval \<Rightarrow> error + pyval list" where
  "py_iter (PList xs) = Inr xs"
| "py_iter (PTuple xs) = Inr xs"
| "py_iter (PDict d) = Inr (map (PStr \<circ> fst) d)"
| "py_iter (PStr s) = Inr (map (\<lambda>c. PStr [c]) s)"
| "py_iter (PBytes s) = Inr (map (\<lambda>c. PInt (of_char c)) s)"
| "py_iter v = Inl (TypeError (sq @ py_type_name v @ sq @ '' object is not iterable''))"

text \<open>\<^verbatim>\<open>item.get(k)\<close> and \<^verbatim>\<open>item[k]\<close> on a value that should be a dict.\<close>

fun item_get :: "pyval \<Rightarrow> string \<Rightarrow> error + pyval" where
  "item_get (PDict d) k = Inr (dict_get d k)"
| "item_get v k = Inl (AttributeError (sq @ py_type_name v @ sq @ '' object has no attribute '' @ sq @ ''get'' @ sq))"

fun item_subscript :: "pyval \<Rightarrow> string \<Rightarrow> error + pyval" where
  "item_subscript (PDict d) k = (case map_of d k of None \<Rightarrow> Inl (KeyError k) | Some v \<Rightarrow> Inr v)"
| "item_subscript v k = Inl (TypeError (sq @ py_type_name v @ sq @ '' object is not subscriptable''))"

text \<open>\<^verbatim>\<open>[item for item in items if item.get(k) == v]\<close>.\<close>

fun filter_eq :: "string \<Rightarrow> pyval \<Rightarrow> pyval list \<Rightarrow> error + pyval list" where
  "filter_eq k v [] = Inr []"
| "filter_eq k v (item # items) =
     (case item_get item k of
        Inl e \<Rightarrow> Inl e
      | Inr u \<Rightarrow>
          (case filter_eq k v items of
             Inl e \<Rightarrow> Inl e
           | Inr rest \<Rightarrow> Inr (if py_eq u v then item # rest else rest)))"

text \<open>\<^verbatim>\<open>for k, v in filters.items(): items = [item for item in items if item.get(k) == v]\<close>.\<close>

fun apply_filters :: "dict \<Rightarrow> pyval list \<Rightarrow> error + pyval list" where
  "apply_filters [] items = Inr items"
| "apply_filters ((k, v) # filters) items =
     (case filter_eq k v items of Inl e \<Rightarrow> Inl e | Inr items' \<Rightarrow> apply_filters filters items')"

subsection \<open>The classes\<close>

text \<open>
  One record holds the attributes of every CRUD object; \<open>cls\<close> says which class it is
  an instance of, and the overridden methods dispatch on it.  \<^verbatim>\<open>EndpointGroupCRUD\<close> and
  \<^verbatim>\<open>TagCRUD\<close> override nothing of \<^verbatim>\<open>BaseCRUD\<close>; \<^verbatim>\<open>SwarmConfigCRUD\<close>, \<^verbatim>\<open>SwarmSecretCRUD\<close>
  and \<^verbatim>\<open>DockerNetworkCRUD\<close> override nothing of \<^verbatim>\<open>BaseDockerCRUD\<close>.  \<^verbatim>\<open>EnvironmentCRUD\<close>,
  whose response hook itself issues requests, is not modelled.  Attributes a class does
  not have are filled with \<^verbatim>\<open>None\<close> or the empty string and never read for it.
\<close>

datatype crud_class = BaseCRUD | BaseDockerCRUD | SwarmCRUD | StackCRUD

record crud =
  cls :: crud_class
  resource_name :: string
  endpoint_attr :: string
  name_field :: string
  id_field :: string
  docker_endpoint :: string
  endpoint_id :: pyval
  stack_type :: pyval
  stack_source :: pyval

definition BaseCRUD_init :: "string \<Rightarrow> string \<Rightarrow> string \<Rightarrow> string \<Rightarrow> crud" where
  "BaseCRUD_init endpoint nf idf rn =
     \<lparr>cls = BaseCRUD, resource_name = rn, endpoint_attr = endpoint, name_field = nf,
      id_field = idf, docker_endpoint = [], endpoint_id = PNone, stack_type = PNone,
      stack_source = PNone\<rparr>"

text \<open>\<open>params_endpoint_id\<close> is \<^verbatim>\<open>module.params.get("endpoint_id")\<close>.\<close>

definition BaseDockerCRUD_init :: "pyval \<Rightarrow> string \<Rightarrow> string \<Rightarrow> string \<Rightarrow> string \<Rightarrow> crud" where
  "BaseDockerCRUD_init params_endpoint_id de nf idf rn =
     (BaseCRUD_init de nf idf rn)
       \<lparr>cls := BaseDockerCRUD, docker_endpoint := de, endpoint_id := params_endpoint_id\<rparr>"

definition EndpointGroupCRUD :: crud where
  "EndpointGroupCRUD = BaseCRUD_init ''/endpoint_groups'' ''Name'' ''Id'' ''group''"

definition TagCRUD :: crud where
  "TagCRUD = BaseCRUD_init ''/tags'' ''Name'' ''ID'' ''tag''"

text \<open>\<open>st\<close> and \<open>src\<close> are \<^verbatim>\<open>module.params.get("stack_type", "")\<close> and the like.\<close>

definition StackCRUD_init :: "pyval \<Rightarrow> pyval \<Rightarrow> crud" where
  "StackCRUD_init st src =
     (BaseCRUD_init ''/stacks'' PF_STACK_NAME PF_STACK_ID ''stack'')
       \<lparr>cls := StackCRUD, stack_type := st, stack_source := src\<rparr>"

definition SwarmCRUD_init :: "pyval \<Rightarrow> crud" where
  "SwarmCRUD_init e = (BaseDockerCRUD_init e ''/swarm'' ''Name'' ''ID'' ''swarm'')\<lparr>cls := SwarmCRUD\<rparr>"

definition SwarmConfigCRUD :: "pyval \<Rightarrow> crud" where
  "SwarmConfigCRUD e = BaseDockerCRUD_init e ''/configs'' ''Name'' ''ID'' ''swarm config''"

definition SwarmSecretCRUD :: "pyval \<Rightarrow> crud" where
  "SwarmSecretCRUD e = BaseDockerCRUD_init e ''/secrets'' ''Name'' ''ID'' ''swarm secret''"

definition DockerNetworkCRUD :: "pyval \<Rightarrow> crud" where
  "DockerNetworkCRUD e = BaseDockerCRUD_init e ''/networks'' ''Name'' ''Id'' ''docker network''"

definition is_docker :: "crud \<Rightarrow> bool" where
  "is_docker self = (cls self = BaseDockerCRUD \<or> cls self = SwarmCRUD)"

subsection \<open>Endpoints\<close>

text \<open>
  The \<^verbatim>\<open>endpoint\<close> property.  \<^verbatim>\<open>BaseDockerCRUD\<close> overrides it:
  \<^verbatim>\<open>
  if self._endpoint_id is None:
      raise ValueError(f"endpoint_id must be set to use {self.resource_name}. ...")
  return f"/endpoints/{self._endpoint_id}/docker{self.docker_endpoint}"
  \<close>
\<close>

definition endpoint :: "crud \<Rightarrow> error + string" where
  "endpoint self =
     (if is_docker self then
        (if endpoint_id self = PNone then
           Inl (ValueError (''endpoint_id must be set to use '' @ resource_name self @ ''. ''
                  @ ''Either set '' @ sq @ ''endpoint_id'' @ sq @ '' as module param or ''
                  @ ''use '' @ sq @ ''with crud.using_endpoint(endpoint_id):'' @ sq
                  @ '' context manager.''))
         else Inr (''/endpoints/'' @ py_str (endpoint_id self) @ ''/docker'' @ docker_endpoint self))
      else Inr (endpoint_attr self))"

definition get_delete_endpoint :: "crud \<Rightarrow> pyval \<Rightarrow> error + string" where
  "get_delete_endpoint self ident = bind_err (endpoint self) (\<lambda>e. Inr (e @ ''/'' @ py_str ident))"

definition get_create_endpoint :: "crud \<Rightarrow> error + string" where
  "get_create_endpoint self =
     (case cls self of
        BaseCRUD \<Rightarrow> endpoint self
      | StackCRUD \<Rightarrow>
          bind_err (endpoint self) (\<lambda>e.
            Inr (e @ ''/create/'' @ py_str (stack_type self) @ ''/'' @ py_str (stack_source self)))
      | _ \<Rightarrow> bind_err (endpoint self) (\<lambda>e. Inr (e @ ''/create'')))"

text \<open>
  \<^verbatim>\<open>StackCRUD\<close>:
  \<^verbatim>\<open>
  def _get_update_endpoint(self, id):
      if self.stack_type == "swarm":
          if self.stack_source == "repository":
              return f"{self.endpoint}/{id}/git"
      return f"{self.endpoint}/{id}"
  \<close>
  and \<^verbatim>\<open>_update_method\<close> returns \<^verbatim>\<open>client.post\<close> under the same two tests, \<^verbatim>\<open>client.put\<close> otherwise.
\<close>

definition get_update_endpoint :: "crud \<Rightarrow> pyval \<Rightarrow> error + string" where
  "get_update_endpoint self ident =
     (case cls self of
        BaseCRUD \<Rightarrow> bind_err (endpoint self) (\<lambda>e. Inr (e @ ''/'' @ py_str ident))
      | StackCRUD \<Rightarrow>
          (if py_eq (stack_type self) (PStr ''swarm'') \<and> py_eq (stack_source self) (PStr ''repository'')
           then bind_err (endpoint self) (\<lambda>e. Inr (e @ ''/'' @ py_str ident @ ''/git''))
           else bind_err (endpoint self) (\<lambda>e. Inr (e @ ''/'' @ py_str ident)))
      | _ \<Rightarrow> bind_err (endpoint self) (\<lambda>e. Inr (e @ ''/'' @ py_str ident @ ''/update'')))"

definition update_method :: "crud \<Rightarrow> request_method" where
  "update_method self =
     (if cls self = StackCRUD \<and> py_eq (stack_type self) (PStr ''swarm'')
         \<and> py_eq (stack_source self) (PStr ''repository'')
      then POST else PUT)"

subsection \<open>The response hook\<close>

text \<open>
  \<^verbatim>\<open>BaseDockerCRUD._process_single_item\<close>:
  \<^verbatim>\<open>
  name = get_nested(item, "Spec.Name", None)
  if name and "Name" not in item:
      item["Name"] = name
  return item
  \<close>
  \<^verbatim>\<open>SwarmCRUD\<close> runs it and then sets \<^verbatim>\<open>Name\<close> whenever the nested name is truthy.
\<close>

definition docker_process_single_item :: "pyval \<Rightarrow> pyval" where
  "docker_process_single_item item =
     (let name = get_nested item ''Spec.Name'' PNone in
      case item of
        PDict d \<Rightarrow>
          if truthy name \<and> ''Name'' \<notin> dict_keys d then PDict (dict_set d ''Name'' name) else item
      | _ \<Rightarrow> item)"

definition swarm_process_single_item :: "pyval \<Rightarrow> pyval" where
  "swarm_process_single_item item0 =
     (let item = docker_process_single_item item0;
          name = get_nested item ''Spec.Name'' PNone in
      case item of
        PDict d \<Rightarrow> if truthy name then PDict (dict_set d ''Name'' name) else item
      | _ \<Rightarrow> item)"

text \<open>
  \<^verbatim>\<open>StackCRUD._process_single_item\<close> pops \<^verbatim>\<open>GitConfig\<close> and, when it is truthy, flattens
  it into five root fields.  \<^verbatim>\<open>item.pop(key, None)\<close> raises on anything but a dict.
\<close>

definition stack_process_single_item :: "pyval \<Rightarrow> error + pyval" where
  "stack_process_single_item item =
     (case item of
        PDict d \<Rightarrow>
          (let git_configs = dict_get d PF_STACK_GIT_CONFIGS;
               d0 = dict_pop d PF_STACK_GIT_CONFIGS in
           if truthy git_configs then
             (let d1 = dict_set d0 PF_STACK_REPOSITORY_AUTHENTICATION
                         (PBool (truthy (get_nested git_configs PF_STACK_GIT_CONFIGS_AUTHENTICATION PNone)));
                  d2 = dict_set d1 PF_STACK_REPOSITORY_AUTHORIZATION_TYPE
                         (get_nested git_configs PF_STACK_GIT_CONFIGS_AUTH_TYPE PNone);
                  d3 = dict_set d2 PF_STACK_REPOSITORY_REFERENCE_NAME
                         (get_nested git_configs PF_STACK_GIT_CONFIGS_REFS_NAME PNone);
                  d4 = dict_set d3 PF_STACK_REPOSITORY_USERNAME
                         (get_nested git_configs PF_STACK_GIT_CONFIGS_USERNAME PNone);
                  d5 = dict_set d4 PF_STACK_TLS_SKIP_VERIFY
                         (get_nested git_configs PF_STACK_GIT_CONFIGS_TLS_SKIP_VERIFY PNone)
              in Inr (PDict d5))
           else Inr (PDict d0))
      | PList xs \<Rightarrow> Inl (TypeError ''pop expected at most 1 argument, got 2'')
      | _ \<Rightarrow> Inl (AttributeError (sq @ py_type_name item @ sq @ '' object has no attribute ''
                     @ sq @ ''pop'' @ sq)))"

definition process_single_item :: "crud \<Rightarrow> pyval \<Rightarrow> error + pyval" where
  "process_single_item self item =
     (case cls self of
        BaseCRUD \<Rightarrow> Inr item
      | BaseDockerCRUD \<Rightarrow> Inr (docker_process_single_item item)
      | SwarmCRUD \<Rightarrow> Inr (swarm_process_single_item item)
      | StackCRUD \<Rightarrow> stack_process_single_item item)"

text \<open>
  \<^verbatim>\<open>
  def _process_response(self, data):
      if not data:
          return data
      if isinstance(data, list):
          return [self._process_single_item(item) for item in data]
      return self._process_single_item(data)
  \<close>
\<close>

definition process_response :: "crud \<Rightarrow> pyval \<Rightarrow> error + pyval" where
  "process_response self data =
     (if \<not> truthy data then Inr data
      else case data of
        PList xs \<Rightarrow> bind_err (map_err (process_single_item self) xs) (\<lambda>ys. Inr (PList ys))
      | _ \<Rightarrow> process_single_item self data)"

subsection \<open>The generic operations\<close>

definition list_items :: "server \<Rightarrow> crud \<Rightarrow> dict option \<Rightarrow> pyval io" where
  "list_items srv self params =
     bind_io (lift_io (endpoint self)) (\<lambda>e.
     bind_io (client_get srv e params) (\<lambda>data.
     lift_io (process_response self data)))"

definition get_item_by_id :: "server \<Rightarrow> crud \<Rightarrow> pyval \<Rightarrow> pyval io" where
  "get_item_by_id srv self item_id =
     (if item_id = PNone then raise_io (ValueError ''Item ID cannot be None'')
      else
        bind_io (lift_io (endpoint self)) (\<lambda>e.
        bind_io (client_get srv (e @ ''/'' @ py_str item_id) None) (\<lambda>data.
        lift_io (process_response self data))))"

text \<open>
  \<^verbatim>\<open>
  def get_item_by_name(self, name, params=None, filters=None):
      if not name:
          raise ValueError("Name should not be empty")
      all_items = self.list_items(params=params)
      items = [item for item in all_items if item.get(self.name_field) == name]
      if filters:
          for k, v in filters.items():
              items = [item for item in items if item.get(k) == v]
      if len(items) == 0:
          raise ItemNotExists(f"Item '{name}' does not exist.")
      elif len(items) == 1:
          return items[0]
      else:
          raise MultipleItemsReturned("Multiple items found", [g[self.id_field] for g in items])
  \<close>
  \<open>select_by_name\<close> is the part after the call of \<^verbatim>\<open>list_items\<close>.
\<close>

definition select_by_name :: "crud \<Rightarrow> pyval \<Rightarrow> dict option \<Rightarrow> pyval \<Rightarrow> error + pyval" where
  "select_by_name self name filters all_items =
     bind_err (py_iter all_items) (\<lambda>xs.
     bind_err (filter_eq (name_field self) name xs) (\<lambda>items0.
     bind_err (case filters of
                 None \<Rightarrow> Inr items0
               | Some f \<Rightarrow> if f = [] then Inr items0 else apply_filters f items0) (\<lambda>items.
       case items of
         [] \<Rightarrow> Inl (ItemNotExists (''Item '' @ sq @ py_str name @ sq @ '' does not exist.''))
       | [item] \<Rightarrow> Inr item
       | _ \<Rightarrow>
           bind_err (map_err (\<lambda>g. item_subscript g (id_field self)) items) (\<lambda>ids.
             Inl (MultipleItemsReturned ''Multiple items found'' ids)))))"

definition get_item_by_name ::
  "server \<Rightarrow> crud \<Rightarrow> pyval \<Rightarrow> dict option \<Rightarrow> dict option \<Rightarrow> pyval io" where
  "get_item_by_name srv self name params filters =
     (if \<not> truthy name then raise_io (ValueError ''Name should not be empty'')
      else
        bind_io (list_items srv self params) (\<lambda>all_items.
        lift_io (select_by_name self name filters all_items)))"

text \<open>
  \<^verbatim>\<open>
  def validate_single_item(self, name, operation="operate on", params=None, filters=None):
      try:
          return self.get_item_by_name(name=name, params=params, filters=filters)
      except MultipleItemsReturned as e:
          self.module.fail_json(
              msg=f"Cannot {operation} {self.resource_name}: Multiple {self.resource_name}s found "
                  f"with name '{name}'. Please use the Portainer UI to remove duplicates.",
              duplicate_ids=e.item_ids)
      except ItemNotExists:
          return None
  \<close>
\<close>

definition validate_single_item ::
  "server \<Rightarrow> crud \<Rightarrow> pyval \<Rightarrow> string \<Rightarrow> dict option \<Rightarrow> dict option \<Rightarrow> pyval io" where
  "validate_single_item srv self name operation params filters log =
     (case get_item_by_name srv self name params filters log of
        (Inl (MultipleItemsReturned m item_ids), log') \<Rightarrow>
          (Inl (FailJson
                 (''Cannot '' @ operation @ '' '' @ resource_name self @ '': Multiple ''
                    @ resource_name self @ ''s found with name '' @ sq @ py_str name @ sq @ ''. ''
                    @ ''Please use the Portainer UI to remove duplicates.'')
                 [(''duplicate_ids'', PList item_ids)]), log')
      | (Inl (ItemNotExists m), log') \<Rightarrow> (Inr PNone, log')
      | r \<Rightarrow> r)"

text \<open>
  \<^verbatim>\<open>create_item\<close> posts \<^verbatim>\<open>{self.name_field: name, **item_data}\<close> to the create endpoint.
  \<^verbatim>\<open>SwarmCRUD\<close> overrides \<^verbatim>\<open>create_item\<close>, \<^verbatim>\<open>update_item\<close> and the three deletes by
  methods that do nothing.
\<close>

definition create_item ::
  "server \<Rightarrow> crud \<Rightarrow> pyval \<Rightarrow> dict option \<Rightarrow> body_format option \<Rightarrow> dict option \<Rightarrow> pyval io" where
  "create_item srv self name item_data body_format params =
     (if cls self = SwarmCRUD then return_io (PDict [])
      else if \<not> truthy name then raise_io (ValueError ''Name should not be empty'')
      else
        bind_io (lift_io (get_create_endpoint self)) (\<lambda>e.
        bind_io (client_post srv e
                   (Some (dict_update [(name_field self, name)] (or_empty item_data)))
                   body_format params) (\<lambda>data.
        lift_io (process_response self data))))"

definition update_item :: "server \<Rightarrow> crud \<Rightarrow> pyval \<Rightarrow> dict \<Rightarrow> dict option \<Rightarrow> pyval io" where
  "update_item srv self item_id changes params =
     (if cls self = SwarmCRUD then return_io (PDict [])
      else if item_id = PNone then raise_io (ValueError ''Item ID cannot be None'')
      else
        bind_io (lift_io (get_update_endpoint self item_id)) (\<lambda>e.
        bind_io (client_request srv
                   \<lparr>c_method = update_method self, c_endpoint = e, c_params = params,
                    c_data = Some changes, c_body_format = None\<rparr>) (\<lambda>data.
        lift_io (process_response self data))))"

definition delete_item_by_id :: "server \<Rightarrow> crud \<Rightarrow> pyval \<Rightarrow> dict option \<Rightarrow> pyval io" where
  "delete_item_by_id srv self item_id params =
     (if cls self = SwarmCRUD then return_io PNone
      else if item_id = PNone then raise_io (ValueError ''Item ID cannot be None'')
      else
        bind_io (lift_io (get_delete_endpoint self item_id)) (\<lambda>e.
        bind_io (client_delete srv e params) (\<lambda>data.
        return_io PNone)))"

definition delete_item_by_name :: "server \<Rightarrow> crud \<Rightarrow> pyval \<Rightarrow> pyval io" where
  "delete_item_by_name srv self name =
     (if cls self = SwarmCRUD then return_io PNone
      else if \<not> truthy name then raise_io (ValueError ''Name should not be empty'')
      else
        bind_io (get_item_by_name srv self name None None) (\<lambda>item.
        bind_io (lift_io (item_subscript item (id_field self))) (\<lambda>item_id.
        delete_item_by_id srv self item_id None)))"

text \<open>
  \<^verbatim>\<open>StackCRUD.redeploy\<close>:
  \<^verbatim>\<open>
  response = None
  if self.stack_type == "swarm":
      if self.stack_source == "repository":
          response = self.module.client.put(
              f"{self.endpoint}/{stack_id}/git/redeploy", data=data, params=params)
  if not isinstance(response, dict):
      raise ValueError("Unexpected response received")
  return self._process_response(response)
  \<close>
\<close>

definition redeploy :: "server \<Rightarrow> crud \<Rightarrow> pyval \<Rightarrow> dict \<Rightarrow> dict option \<Rightarrow> pyval io" where
  "redeploy srv self stack_id data params =
     bind_io
       (if py_eq (stack_type self) (PStr ''swarm'') \<and> py_eq (stack_source self) (PStr ''repository'')
        then
          bind_io (lift_io (endpoint self)) (\<lambda>e.
          client_put srv (e @ ''/'' @ py_str stack_id @ ''/git/redeploy'') (Some data) None params)
        else return_io PNone)
       (\<lambda>response.
          case response of
            PDict d \<Rightarrow> lift_io (process_response self response)
          | _ \<Rightarrow> raise_io (ValueError ''Unexpected response received''))"

definition stop_stack :: "server \<Rightarrow> crud \<Rightarrow> pyval \<Rightarrow> pyval \<Rightarrow> pyval io" where
  "stop_stack srv self stack_id eid =
     bind_io (lift_io (endpoint self)) (\<lambda>e.
     client_post srv (e @ ''/'' @ py_str stack_id @ ''/stop'') None None
       (Some [(PF_STACK_ENDPOINT_ID_QUERY, eid)]))"

definition start_stack :: "server \<Rightarrow> crud \<Rightarrow> pyval \<Rightarrow> pyval \<Rightarrow> pyval io" where
  "start_stack srv self stack_id eid =
     bind_io (lift_io (endpoint self)) (\<lambda>e.
     client_post srv (e @ ''/'' @ py_str stack_id @ ''/start'') None None
       (Some [(PF_STACK_ENDPOINT_ID_QUERY, eid)]))"

subsection \<open>The scoped proxy target\<close>

text \<open>
  \<^verbatim>\<open>
  @contextmanager
  def using_endpoint(self, endpoint_id):
      old_endpoint_id = self._endpoint_id
      self._endpoint_id = endpoint_id
      try:
          yield self
      finally:
          self._endpoint_id = old_endpoint_id
  \<close>
  The body of the \<^verbatim>\<open>with\<close> statement is any computation on the adapter and on some further
  state \<open>'w\<close>; it returns a value or raises, and may itself assign to the adapter.  The
  \<^verbatim>\<open>finally\<close> clause runs on both outcomes, and the outcome of the body is the outcome of
  the statement.
\<close>

definition using_endpoint ::
  "pyval \<Rightarrow> (crud \<Rightarrow> 'w \<Rightarrow> (error + 'a) \<times> crud \<times> 'w) \<Rightarrow> crud \<Rightarrow> 'w \<Rightarrow> (error + 'a) \<times> crud \<times> 'w" where
  "using_endpoint new_endpoint_id body self w =
     (let old_endpoint_id = endpoint_id self;
          entered = self\<lparr>endpoint_id := new_endpoint_id\<rparr>
      in case body entered w of
           (Inr x, self', w') \<Rightarrow> (Inr x, self'\<lparr>endpoint_id := old_endpoint_id\<rparr>, w')
         | (Inl e, self', w') \<Rightarrow> (Inl e, self'\<lparr>endpoint_id := old_endpoint_id\<rparr>, w'))"

text \<open>
  An operation that only reads the adapter, as a body.  \<^verbatim>\<open>SwarmCRUD.inspect_swarm\<close> is
  \<^verbatim>\<open>list_items()\<close>; \<^verbatim>\<open>EnvironmentCRUD.get_swarm_info\<close> runs it under \<^verbatim>\<open>using_endpoint\<close>
  (its \<^verbatim>\<open>lru_cache\<close> is not modelled).
\<close>

definition reading :: "(crud \<Rightarrow> 'a io) \<Rightarrow> crud \<Rightarrow> call list \<Rightarrow> (error + 'a) \<times> crud \<times> call list" where
  "reading f self log = (case f self log of (r, log') \<Rightarrow> (r, self, log'))"



text \<open>The calls an operation adds to the log.\<close>

definition issued :: "'a io \<Rightarrow> call list \<Rightarrow> call list" where
  "issued op log = drop (length log) (snd (op log))"

text \<open>
  \<open>under p op log\<close>: the operation extends the log, and every call it adds has a path
  that starts with \<open>p\<close>.
\<close>

definition under :: "string \<Rightarrow> 'a io \<Rightarrow> call list \<Rightarrow> bool" where
  "under p op log \<longleftrightarrow>
     snd (op log) = log @ issued op log \<and> (\<forall>c \<in> set (issued op log). prefix p (c_endpoint c))"

text \<open>
  A record matches a lookup when its name field equals the queried name and it passes
  every local filter (Python's \<^verbatim>\<open>==\<close> on \<^verbatim>\<open>record.get(key)\<close>).
\<close>

definition name_matches :: "crud \<Rightarrow> pyval \<Rightarrow> dict option \<Rightarrow> dict \<Rightarrow> bool" where
  "name_matches self name filters r \<longleftrightarrow>
     py_eq (dict_get r (name_field self)) name
     \<and> (\<forall>(k, v) \<in> set (or_empty filters). py_eq (dict_get r k) v)"

section \<open>IdempotencyManager (portainer\_module.py)\<close>

text \<open>
  \<^verbatim>\<open>
  def needs_update(self, existing_data, new_data, skip_fields=None):
      changes = {}
      skip_fields = skip_fields or []
      for k, v in new_data.items():
          if k in skip_fields:
              continue
          if v != existing_data.get(k):
              changes[k] = v
      return {k: v for k, v in changes.items() if v is not None}
  \<close>
\<close>

definition needs_update_step :: "dict \<Rightarrow> string list \<Rightarrow> string \<times> pyval \<Rightarrow> dict \<Rightarrow> dict" where
  "needs_update_step existing_data skip = (\<lambda>(k, v) changes.
     if k \<in> set skip then changes
     else if \<not> py_eq v (dict_get existing_data k) then dict_set changes k v
     else changes)"

definition needs_update :: "dict \<Rightarrow> dict \<Rightarrow> string list option \<Rightarrow> dict" where
  "needs_update existing_data new_data skip_fields =
     (let skip = or_empty skip_fields;
          changes = fold (needs_update_step existing_data skip) new_data []
      in filter (\<lambda>(k, v). v \<noteq> PNone) changes)"

text \<open>
  \<^verbatim>\<open>existing_data\<close> is whatever the lookup returned.  \<^verbatim>\<open>existing_data.get\<close> is reached
  for the first key of \<^verbatim>\<open>new_data\<close> that is not skipped, and raises on anything but a dict.
\<close>

definition needs_update_any :: "pyval \<Rightarrow> dict \<Rightarrow> string list option \<Rightarrow> error + dict" where
  "needs_update_any existing_data new_data skip_fields =
     (case existing_data of
        PDict d \<Rightarrow> Inr (needs_update d new_data skip_fields)
      | _ \<Rightarrow>
          if \<forall>(k, v) \<in> set new_data. k \<in> set (or_empty skip_fields) then Inr []
          else Inl (AttributeError (sq @ py_type_name existing_data @ sq
                      @ '' object has no attribute '' @ sq @ ''get'' @ sq)))"

text \<open>
  \<^verbatim>\<open>
  def build_diff(self, before_data=None, after_data=None, skip_fields=None):
      before = self._sanitize_for_diff(before_data, skip_fields=skip_fields)
      _after_data = copy.deepcopy(before_data or {})
      _after_data.update(after_data or {})
      after = self._sanitize_for_diff(_after_data, skip_fields=skip_fields)
      return {"before": before, "after": after}

  def _sanitize_for_diff(self, data=None, skip_fields=None):
      if not data:
          return {}
      skip_fields = skip_fields or []
      sanitized = copy.deepcopy(data)
      for k in skip_fields:
          sanitized.pop(k, None)
      return sanitized
  \<close>
  Both arguments are annotated \<^verbatim>\<open>dict | None\<close>.  A truthy \<^verbatim>\<open>before_data\<close> that is not a
  dict has no \<^verbatim>\<open>update\<close> method; a truthy \<^verbatim>\<open>after_data\<close> that is not a dict is modelled as
  rejected as well (\<^verbatim>\<open>dict.update\<close> would accept a sequence of pairs; no caller passes one).
\<close>

definition sanitize_for_diff :: "dict \<Rightarrow> string list option \<Rightarrow> dict" where
  "sanitize_for_diff data skip_fields = fold (\<lambda>k d. dict_pop d k) (or_empty skip_fields) data"

definition dict_or_empty :: "pyval \<Rightarrow> string \<Rightarrow> error + dict" where
  "dict_or_empty v attr =
     (if \<not> truthy v then Inr []
      else case v of
        PDict d \<Rightarrow> Inr d
      | _ \<Rightarrow> Inl (AttributeError (sq @ py_type_name v @ sq @ '' object has no attribute ''
                     @ sq @ attr @ sq)))"

definition build_diff :: "pyval \<Rightarrow> pyval \<Rightarrow> string list option \<Rightarrow> error + pyval" where
  "build_diff before_data after_data skip_fields =
     bind_err (dict_or_empty before_data ''update'') (\<lambda>b.
     bind_err (dict_or_empty after_data ''keys'') (\<lambda>a.
       Inr (PDict [(''before'', PDict (sanitize_for_diff b skip_fields)),
                   (''after'', PDict (sanitize_for_diff (dict_update b a) skip_fields))])))"

section \<open>The config module (portainer\_config.py)\<close>

text \<open>
  Reading the file named by the \<^verbatim>\<open>file\<close> argument and \<^verbatim>\<open>base64.b64encode\<close> are
  parameters.  \<open>read_text\<close> is \<^verbatim>\<open>open(path, "r", encoding="utf-8").read()\<close>, with the
  exceptions the module handles.
\<close>

datatype io_error = FileNotFoundError | PermissionError | UnicodeDecodeError | IOError string

record config_env =
  read_text :: "string \<Rightarrow> io_error + string"
  b64encode :: "string \<Rightarrow> string"

text \<open>
  The attributes of \<^verbatim>\<open>PortainerConfigManager\<close>; \<open>cm_results\<close> is the \<^verbatim>\<open>results\<close> dict that
  \<^verbatim>\<open>main\<close> creates as \<^verbatim>\<open>dict(changed=False)\<close>, \<open>cm_warnings\<close> collects \<^verbatim>\<open>module.warn\<close>.
\<close>

record config_manager =
  cm_name :: pyval
  cm_config_id :: pyval
  cm_file :: pyval
  cm_content :: pyval
  cm_b64_encoded :: bool
  cm_endpoint_id :: pyval
  cm_force :: bool
  cm_state :: string
  cm_check_mode :: bool
  cm_diff_mode :: bool
  cm_config :: pyval
  cm_old_config :: pyval
  cm_results :: dict
  cm_warnings :: "string list"

definition cm_crud :: "config_manager \<Rightarrow> crud" where
  "cm_crud self = SwarmConfigCRUD (cm_endpoint_id self)"

definition get_raw_content :: "config_env \<Rightarrow> config_manager \<Rightarrow> error + pyval" where
  "get_raw_content env self =
     (if truthy (cm_content self) then Inr (cm_content self)
      else if truthy (cm_file self) then
        (let file_path = py_str (cm_file self) in
         case read_text env file_path of
           Inr content \<Rightarrow>
             if content = [] then Inl (FailJson (''File is empty: '' @ file_path) [])
             else Inr (PStr content)
         | Inl FileNotFoundError \<Rightarrow> Inl (FailJson (''File not found: '' @ file_path) [])
         | Inl PermissionError \<Rightarrow>
             Inl (FailJson (''Permission denied reading file: '' @ file_path) [])
         | Inl UnicodeDecodeError \<Rightarrow>
             Inl (FailJson (''File contains binary data and cannot be read as text: '' @ file_path
                    @ ''. This module only supports text-based configs.'') [])
         | Inl (IOError m) \<Rightarrow>
             Inl (FailJson (''Failed to read file '' @ file_path @ '': '' @ m) []))
      else Inr PNone)"

text \<open>
  \<^verbatim>\<open>_get_config_data\<close>: the name, and the content under \<^verbatim>\<open>Data\<close>, base64-encoded unless
  \<^verbatim>\<open>b64_encoded\<close> says it already is.
\<close>

definition get_config_data :: "config_env \<Rightarrow> config_manager \<Rightarrow> error + dict" where
  "get_config_data env self =
     (let data = [(PF_CONFIG_NAME, cm_name self)] in
      if \<not> truthy (cm_content self) \<and> \<not> truthy (cm_file self) then Inr data
      else
        bind_err (get_raw_content env self) (\<lambda>raw_content.
          if \<not> truthy raw_content then Inl (FailJson (''Couldn'' @ sq @ ''t get config data.'') [])
          else if cm_b64_encoded self then Inr (dict_set data PF_CONFIG_DATA raw_content)
          else (case raw_content of
                  PStr raw \<Rightarrow> Inr (dict_set data PF_CONFIG_DATA (PStr (b64encode env raw)))
                | _ \<Rightarrow> Inl (AttributeError (sq @ py_type_name raw_content @ sq
                               @ '' object has no attribute '' @ sq @ ''encode'' @ sq)))))"

text \<open>
  \<^verbatim>\<open>get_config\<close>: by id when \<^verbatim>\<open>config_id\<close> is given, by name otherwise.
\<close>

definition get_config :: "server \<Rightarrow> config_manager \<Rightarrow> pyval io" where
  "get_config srv self =
     (if truthy (cm_config_id self) then get_item_by_id srv (cm_crud self) (cm_config_id self)
      else validate_single_item srv (cm_crud self) (cm_name self) ''retrieve'' None None)"

definition create_config :: "config_env \<Rightarrow> server \<Rightarrow> config_manager \<Rightarrow> pyval io" where
  "create_config env srv self =
     (if \<not> cm_check_mode self then
        bind_io (lift_io (get_config_data env self)) (\<lambda>config_data.
        create_item srv (cm_crud self) (cm_name self) (Some config_data) None None)
      else return_io PNone)"

definition delete_config :: "server \<Rightarrow> config_manager \<Rightarrow> pyval \<Rightarrow> pyval io" where
  "delete_config srv self config_id =
     (if \<not> cm_check_mode self then delete_item_by_id srv (cm_crud self) config_id None
      else return_io PNone)"

definition set_result :: "config_manager \<Rightarrow> string \<Rightarrow> pyval \<Rightarrow> config_manager" where
  "set_result self k v = self\<lparr>cm_results := dict_set (cm_results self) k v\<rparr>"

text \<open>
  \<^verbatim>\<open>
  def ensure_absent(self):
      if self.config:
          if not self.check_mode:
              self.delete_config(config_id=self.config[PF.CONFIG_ID])
              self.config = {}
          self.results["changed"] = True
          self.results["msg"] = "Config deleted"
      else:
          self.results["msg"] = "Config does not exists"
  \<close>
\<close>

definition ensure_absent :: "server \<Rightarrow> config_manager \<Rightarrow> config_manager io" where
  "ensure_absent srv self =
     (if truthy (cm_config self) then
        bind_io
          (if \<not> cm_check_mode self then
             bind_io (lift_io (item_subscript (cm_config self) PF_CONFIG_ID)) (\<lambda>config_id.
             bind_io (delete_config srv self config_id) (\<lambda>u.
             return_io (self\<lparr>cm_config := PDict []\<rparr>)))
           else return_io self)
          (\<lambda>self1.
             return_io (set_result (set_result self1 ''changed'' (PBool True))
                          ''msg'' (PStr ''Config deleted'')))
      else return_io (set_result self ''msg'' (PStr ''Config does not exists'')))"

text \<open>
  \<^verbatim>\<open>
  def ensure_present(self):
      if self.config:
          changes = self.idempotency.needs_update(
              existing_data=self.config, new_data=self._get_config_data())
          if not changes:
              self.results["msg"] = "Config already exists."
              return
          if not self.force:
              self.module.warn("The content of the config was not updated. "
                               "In order to recreate the config use force: true.")
              self.results["msg"] = "Config already exists. Update skipped."
              return
          if not self.check_mode:
              self.ensure_absent()
              self.config = self.create_config()
          self.results["changed"] = True
          self.results["msg"] = "Config updated."
      else:
          if not self.check_mode:
              self.config = self.create_config()
          self.results["changed"] = True
          self.results["msg"] = "Config created."
  \<close>
\<close>

definition ensure_present :: "config_env \<Rightarrow> server \<Rightarrow> config_manager \<Rightarrow> config_manager io" where
  "ensure_present env srv self =
     (if truthy (cm_config self) then
        bind_io (lift_io (get_config_data env self)) (\<lambda>new_data.
        bind_io (lift_io (needs_update_any (cm_config self) new_data None)) (\<lambda>changes.
          if changes = [] then
            return_io (set_result self ''msg'' (PStr ''Config already exists.''))
          else if \<not> cm_force self then
            return_io
              (set_result
                 (self\<lparr>cm_warnings := cm_warnings self
                    @ [''The content of the config was not updated. ''
                       @ ''In order to recreate the config use force: true.'']\<rparr>)
                 ''msg'' (PStr ''Config already exists. Update skipped.''))
          else
            bind_io
              (if \<not> cm_check_mode self then
                 bind_io (ensure_absent srv self) (\<lambda>self1.
                 bind_io (create_config env srv self1) (\<lambda>created.
                 return_io (self1\<lparr>cm_config := created\<rparr>)))
               else return_io self)
              (\<lambda>self2.
                 return_io (set_result (set_result self2 ''changed'' (PBool True))
                              ''msg'' (PStr ''Config updated.'')))))
      else
        bind_io
          (if \<not> cm_check_mode self then
             bind_io (create_config env srv self) (\<lambda>created.
             return_io (self\<lparr>cm_config := created\<rparr>))
           else return_io self)
          (\<lambda>self1.
             return_io (set_result (set_result self1 ''changed'' (PBool True))
                          ''msg'' (PStr ''Config created.''))))"

text \<open>
  \<^verbatim>\<open>__call__\<close>: look the config up, run the handler that \<^verbatim>\<open>states_mapping\<close> gives for the
  target state (\<open>config_state_function\<close>), then fill in \<^verbatim>\<open>results["config"]\<close>
  (\<^verbatim>\<open>self.config or self._get_config_data()\<close>) and, in diff mode, \<^verbatim>\<open>results["diff"]\<close>
  (\<open>config_report\<close>).
\<close>

definition config_state_function ::
  "config_env \<Rightarrow> server \<Rightarrow> config_manager \<Rightarrow> config_manager io" where
  "config_state_function env srv self =
     (if cm_state self = ''present'' then ensure_present env srv self
      else if cm_state self = ''absent'' then ensure_absent srv self
      else raise_io (FailJson (''Internal error: state '' @ sq @ cm_state self @ sq
                       @ '' is not mapped. This is a bug in the module - please report it.'') []))"

definition config_report :: "config_env \<Rightarrow> config_manager \<Rightarrow> config_manager io" where
  "config_report env self =
     bind_io (if truthy (cm_config self) then return_io (cm_config self)
              else lift_io (bind_err (get_config_data env self) (\<lambda>d. Inr (PDict d)))) (\<lambda>reported.
       let self1 = set_result self ''config'' reported in
       if cm_diff_mode self1 then
         bind_io (lift_io (build_diff (cm_old_config self1) reported None)) (\<lambda>diff.
         return_io (set_result self1 ''diff'' diff))
       else return_io self1)"

definition config_call :: "config_env \<Rightarrow> server \<Rightarrow> config_manager \<Rightarrow> config_manager io" where
  "config_call env srv self =
     bind_io (get_config srv self) (\<lambda>config.
     bind_io (config_state_function env srv (self\<lparr>cm_config := config, cm_old_config := config\<rparr>))
       (config_report env))"

text \<open>
  \<^verbatim>\<open>main\<close> starts the manager on \<^verbatim>\<open>results = dict(changed=False)\<close> with no config loaded.
\<close>

definition config_manager_init ::
  "pyval \<Rightarrow> pyval \<Rightarrow> pyval \<Rightarrow> pyval \<Rightarrow> bool \<Rightarrow> pyval \<Rightarrow> bool \<Rightarrow> string \<Rightarrow> bool \<Rightarrow> bool
     \<Rightarrow> config_manager" where
  "config_manager_init name config_id file content b64_encoded eid force state check_mode diff_mode =
     \<lparr>cm_name = name, cm_config_id = config_id, cm_file = file, cm_content = content,
      cm_b64_encoded = b64_encoded, cm_endpoint_id = eid, cm_force = force, cm_state = state,
      cm_check_mode = check_mode, cm_diff_mode = diff_mode, cm_config = PDict [],
      cm_old_config = PDict [], cm_results = [(''changed'', PBool False)], cm_warnings = []\<rparr>"

section \<open>The Stack dataclass (portainer\_stack.py)\<close>

text \<open>
  The dataclass has seventeen attributes, all defaulting to \<^verbatim>\<open>None\<close>.  The annotations
  are not enforced: \<^verbatim>\<open>update_from_dict\<close> stores whatever the API returned, so every
  attribute holds a \<open>pyval\<close>.
\<close>

record Stack =
  st_id :: pyval
  st_name :: pyval
  st_env :: pyval
  st_prune :: pyval
  st_pull_images :: pyval
  st_additional_files :: pyval
  st_autoupdate :: pyval
  st_compose_file :: pyval
  st_rep_authentication :: pyval
  st_rep_password :: pyval
  st_rep_refs_name :: pyval
  st_rep_url :: pyval
  st_rep_username :: pyval
  st_swarm_id :: pyval
  st_endpoint_id :: pyval
  st_tls_skip_verify :: pyval
  st_status :: pyval

definition Stack_init :: Stack where
  "Stack_init = \<lparr>st_id = PNone, st_name = PNone, st_env = PNone, st_prune = PNone,
     st_pull_images = PNone, st_additional_files = PNone, st_autoupdate = PNone,
     st_compose_file = PNone, st_rep_authentication = PNone, st_rep_password = PNone,
     st_rep_refs_name = PNone, st_rep_url = PNone, st_rep_username = PNone,
     st_swarm_id = PNone, st_endpoint_id = PNone, st_tls_skip_verify = PNone,
     st_status = PNone\<rparr>"

text \<open>\<^verbatim>\<open>getattr(self, a)\<close> and \<^verbatim>\<open>setattr(self, a, v)\<close> for the attribute names of the mapping.\<close>

definition getattr_Stack :: "Stack \<Rightarrow> string \<Rightarrow> pyval" where
  "getattr_Stack s a =
     (if a = ''id'' then st_id s
      else if a = ''name'' then st_name s
      else if a = ''env'' then st_env s
      else if a = ''prune'' then st_prune s
      else if a = ''pull_images'' then st_pull_images s
      else if a = ''additional_files'' then st_additional_files s
      else if a = ''autoupdate'' then st_autoupdate s
      else if a = ''compose_file'' then st_compose_file s
      else if a = ''rep_authentication'' then st_rep_authentication s
      else if a = ''rep_password'' then st_rep_password s
      else if a = ''rep_refs_name'' then st_rep_refs_name s
      else if a = ''rep_url'' then st_rep_url s
      else if a = ''rep_username'' then st_rep_username s
      else if a = ''swarm_id'' then st_swarm_id s
      else if a = ''endpoint_id'' then st_endpoint_id s
      else if a = ''tls_skip_verify'' then st_tls_skip_verify s
      else if a = ''status'' then st_status s
      else PNone)"

definition setattr_Stack :: "Stack \<Rightarrow> string \<Rightarrow> pyval \<Rightarrow> Stack" where
  "setattr_Stack s a v =
     (if a = ''id'' then s\<lparr>st_id := v\<rparr>
      else if a = ''name'' then s\<lparr>st_name := v\<rparr>
      else if a = ''env'' then s\<lparr>st_env := v\<rparr>
      else if a = ''prune'' then s\<lparr>st_prune := v\<rparr>
      else if a = ''pull_images'' then s\<lparr>st_pull_images := v\<rparr>
      else if a = ''additional_files'' then s\<lparr>st_additional_files := v\<rparr>
      else if a = ''autoupdate'' then s\<lparr>st_autoupdate := v\<rparr>
      else if a = ''compose_file'' then s\<lparr>st_compose_file := v\<rparr>
      else if a = ''rep_authentication'' then s\<lparr>st_rep_authentication := v\<rparr>
      else if a = ''rep_password'' then s\<lparr>st_rep_password := v\<rparr>
      else if a = ''rep_refs_name'' then s\<lparr>st_rep_refs_name := v\<rparr>
      else if a = ''rep_url'' then s\<lparr>st_rep_url := v\<rparr>
      else if a = ''rep_username'' then s\<lparr>st_rep_username := v\<rparr>
      else if a = ''swarm_id'' then s\<lparr>st_swarm_id := v\<rparr>
      else if a = ''endpoint_id'' then s\<lparr>st_endpoint_id := v\<rparr>
      else if a = ''tls_skip_verify'' then s\<lparr>st_tls_skip_verify := v\<rparr>
      else if a = ''status'' then s\<lparr>st_status := v\<rparr>
      else s)"

text \<open>
  \<^verbatim>\<open>fields_mapping\<close>, in the order of the class body: API key to attribute name.  Two
  spellings of the swarm id and of the endpoint id map to the same attribute.
\<close>

definition fields_mapping :: "(string \<times> string) list" where
  "fields_mapping =
     [(PF_STACK_ID, ''id''),
      (PF_STACK_NAME, ''name''),
      (PF_STACK_ENV, ''env''),
      (PF_STACK_PRUNE, ''prune''),
      (PF_STACK_PULL_IMAGES, ''pull_images''),
      (PF_STACK_ADDITIONAL_FILES, ''additional_files''),
      (PF_STACK_AUTOUPDATE, ''autoupdate''),
      (PF_STACK_COMPOSE_FILE, ''compose_file''),
      (PF_STACK_REPOSITORY_AUTHENTICATION, ''rep_authentication''),
      (PF_STACK_REPOSITORY_PASSWORD, ''rep_password''),
      (PF_STACK_REPOSITORY_REFERENCE_NAME, ''rep_refs_name''),
      (PF_STACK_REPOSITORY_URL, ''rep_url''),
      (PF_STACK_REPOSITORY_USERNAME, ''rep_username''),
      (PF_STACK_SWARM_ID, ''swarm_id''),
      (PF_STACK_SWARM_ID_FORM_DATA, ''swarm_id''),
      (PF_STACK_ENDPOINT_ID, ''endpoint_id''),
      (PF_STACK_ENDPOINT_ID_QUERY, ''endpoint_id''),
      (PF_STACK_TLS_SKIP_VERIFY, ''tls_skip_verify''),
      (PF_STACK_STATUS, ''status'')]"

definition private_fields :: "string list" where
  "private_fields = [PF_STACK_REPOSITORY_PASSWORD]"

text \<open>
  \<^verbatim>\<open>
  def update_from_dict(self, data):
      for k, v in data.items():
          if k in self.fields_mapping:
              setattr(self, self.fields_mapping[k], v)
  \<close>
\<close>

definition update_from_dict :: "Stack \<Rightarrow> dict \<Rightarrow> Stack" where
  "update_from_dict s data =
     fold (\<lambda>(k, v) s'. case map_of fields_mapping k of
                           None \<Rightarrow> s'
                         | Some a \<Rightarrow> setattr_Stack s' a v) data s"

text \<open>
  \<^verbatim>\<open>
  def to_dict(self):
      data = {}
      for k, v in self.fields_mapping.items():
          value = getattr(self, v)
          if value is None:
              continue
          if k in self.private_fields:
              data[k] = "***"
              continue
          data[k] = value
      return data
  \<close>
\<close>

definition to_dict_step :: "Stack \<Rightarrow> string \<times> string \<Rightarrow> dict \<Rightarrow> dict" where
  "to_dict_step s = (\<lambda>(k, a) data.
     let value = getattr_Stack s a in
     if value = PNone then data
     else if k \<in> set private_fields then dict_set data k (PStr ''***'')
     else dict_set data k value)"

definition to_dict :: "Stack \<Rightarrow> dict" where
  "to_dict s = fold (to_dict_step s) fields_mapping []"

section \<open>The stack module (portainer\_stack.py)\<close>

subsection \<open>StackConfig\<close>

text \<open>
  Several lists are built with \<^verbatim>\<open>list(set(...))\<close>, whose order Python leaves open.  They
  are only ever tested for membership, so the model takes the list without its duplicates
  (\<open>remdups\<close>); the order is of no consequence.
\<close>

record StackConfig =
  create_keys :: "string list"
  update_keys :: "string list"
  redeploy_keys :: "string list"
  create_body_format :: body_format
  needs_swarm_id :: bool
  skip_fields_from_changes :: "string list"
  required_one_of :: "string list list"

text \<open>
  The constructor with \<^verbatim>\<open>__post_init__\<close>:
  \<^verbatim>\<open>
  base_skip = ["ResourceControl", "UpdateDate", "UpdatedBy"]
  if PF.STACK_FILE in self.create_keys:
      base_skip.append(PF.STACK_FILE)
  self.skip_fields_from_changes = list(set(base_skip + self.skip_fields_from_changes))
  \<close>
\<close>

definition StackConfig_init ::
  "string list \<Rightarrow> string list \<Rightarrow> string list \<Rightarrow> body_format \<Rightarrow> bool \<Rightarrow> string list
     \<Rightarrow> string list list \<Rightarrow> StackConfig" where
  "StackConfig_init ck uk rk bf ns skip roo =
     (let base_skip = [''ResourceControl'', ''UpdateDate'', ''UpdatedBy'']
                        @ (if PF_STACK_FILE \<in> set ck then [PF_STACK_FILE] else [])
      in \<lparr>create_keys = ck, update_keys = uk, redeploy_keys = rk, create_body_format = bf,
          needs_swarm_id = ns, skip_fields_from_changes = remdups (base_skip @ skip),
          required_one_of = roo\<rparr>)"

definition COMMON_ENV_KEYS :: "string list" where
  "COMMON_ENV_KEYS = [PF_STACK_ENV, PF_STACK_PRUNE]"

definition COMMON_REPO_KEYS :: "string list" where
  "COMMON_REPO_KEYS =
     [PF_STACK_AUTOUPDATE, PF_STACK_REPOSITORY_AUTHENTICATION, PF_STACK_REPOSITORY_PASSWORD,
      PF_STACK_REPOSITORY_REFERENCE_NAME, PF_STACK_REPOSITORY_USERNAME, PF_STACK_TLS_SKIP_VERIFY]"

definition repository_base_create :: "string list" where
  "repository_base_create =
     [PF_STACK_NAME, PF_STACK_ADDITIONAL_FILES, PF_STACK_COMPOSE_FILE, PF_STACK_REPOSITORY_URL]
       @ COMMON_ENV_KEYS @ COMMON_REPO_KEYS"

text \<open>
  \<^verbatim>\<open>list(set(base_create) - set([Name, RepositoryURL, ComposeFile, AdditionalFiles, SwarmId]))
  + [RepositoryAuthorizationType]\<close>, computed before \<^verbatim>\<open>SwarmId\<close> is appended to the create
  keys of a swarm stack.
\<close>

definition repository_base_update :: "string list" where
  "repository_base_update =
     filter (\<lambda>k. k \<notin> set [PF_STACK_NAME, PF_STACK_REPOSITORY_URL, PF_STACK_COMPOSE_FILE,
                            PF_STACK_ADDITIONAL_FILES, PF_STACK_SWARM_ID])
       (remdups repository_base_create)
     @ [PF_STACK_REPOSITORY_AUTHORIZATION_TYPE]"

definition for_stack :: "pyval \<Rightarrow> pyval \<Rightarrow> error + StackConfig" where
  "for_stack stack_type' stack_source' =
     (if py_eq stack_source' (PStr ''file'') then
        Inr (StackConfig_init
               ([PF_STACK_NAME, PF_STACK_ENV, PF_STACK_FILE]
                  @ (if py_eq stack_type' (PStr ''swarm'') then [PF_STACK_SWARM_ID_FORM_DATA] else []))
               [PF_STACK_ENV, PF_STACK_PRUNE, PF_STACK_PULL_IMAGES, PF_STACK_FILE_CONTENT]
               []
               FORM_DATA
               (py_eq stack_type' (PStr ''swarm''))
               []
               [])
      else if py_eq stack_source' (PStr ''repository'') then
        Inr (StackConfig_init
               (repository_base_create
                  @ (if py_eq stack_type' (PStr ''swarm'') then [PF_STACK_SWARM_ID] else []))
               repository_base_update
               (repository_base_update @ [PF_STACK_PULL_IMAGES])
               JSON
               (py_eq stack_type' (PStr ''swarm''))
               [PF_STACK_REPOSITORY_PASSWORD]
               [])
      else if stack_type' = PNone \<and> stack_source' = PNone then
        Inr (StackConfig_init [] [] [] JSON False []
               [[''stack_id''], [''name'', ''endpoint_id''], [''name'', ''swarm_id'']])
      else Inl (ValueError (''Unsupported stack configuration: '' @ py_str stack_type' @ '' + ''
                  @ py_str stack_source')))"

subsection \<open>The state of a run\<close>

text \<open>
  One record holds what the collaborating objects of a run share: the module arguments
  as \<^verbatim>\<open>StackStateManager\<close> keeps them (which \<^verbatim>\<open>update_state\<close> may fill in from the API
  record, so they hold any value), the current and the previous \<^verbatim>\<open>Stack\<close>, the
  \<^verbatim>\<open>StackConfig\<close>, the \<^verbatim>\<open>StackCRUD\<close> object, and the \<^verbatim>\<open>results\<close> dict with the mode flags.
  \<^verbatim>\<open>module.warn\<close> is not modelled for this module.
\<close>

record stack_manager =
  sm_name :: pyval
  sm_stack_id :: pyval
  sm_state :: string
  sm_stack_type :: pyval
  sm_stack_source :: pyval
  sm_endpoint_id :: pyval
  sm_swarm_id :: pyval
  sm_prune :: pyval
  sm_pull_images :: pyval
  sm_env :: pyval
  sm_additional_files :: pyval
  sm_autoupdate :: pyval
  sm_compose_file :: pyval
  sm_repository_authentication :: pyval
  sm_repository_password :: pyval
  sm_update_password :: pyval
  sm_refs_name :: pyval
  sm_repository_url :: pyval
  sm_repository_username :: pyval
  sm_tls_skip_verify :: pyval
  sm_file :: pyval
  sm_stack :: Stack
  sm_old_stack :: Stack
  sk_config :: StackConfig
  sk_crud :: crud
  sk_results :: dict
  sk_check_mode :: bool
  sk_diff_mode :: bool

text \<open>
  \<^verbatim>\<open>
  def update_state(self, stack_data=None):
      if isinstance(stack_data, dict):
          self.stack.update_from_dict(stack_data)
      if self.stack.id:
          if self.endpoint_id is None:
              self.endpoint_id = self.stack.endpoint_id
          if self.swarm_id is None:
              self.swarm_id = self.stack.swarm_id
          if self.name is None:
              self.name = self.stack.name
          if self.stack_id is None:
              self.stack_id = self.stack.id
  \<close>
\<close>

definition update_state :: "stack_manager \<Rightarrow> pyval \<Rightarrow> stack_manager" where
  "update_state self stack_data =
     (let self1 = (case stack_data of
                     PDict d \<Rightarrow> self\<lparr>sm_stack := update_from_dict (sm_stack self) d\<rparr>
                   | _ \<Rightarrow> self);
          stack = sm_stack self1
      in if truthy (st_id stack) then
           self1\<lparr>sm_endpoint_id :=
                    (if sm_endpoint_id self1 = PNone then st_endpoint_id stack else sm_endpoint_id self1),
                  sm_swarm_id :=
                    (if sm_swarm_id self1 = PNone then st_swarm_id stack else sm_swarm_id self1),
                  sm_name := (if sm_name self1 = PNone then st_name stack else sm_name self1),
                  sm_stack_id :=
                    (if sm_stack_id self1 = PNone then st_id stack else sm_stack_id self1)\<rparr>
         else self1)"

text \<open>\<^verbatim>\<open>set_old_stack\<close> calls \<^verbatim>\<open>old_stack_data.items()\<close>, which only a dict has.\<close>

definition set_old_stack :: "stack_manager \<Rightarrow> pyval \<Rightarrow> error + stack_manager" where
  "set_old_stack self old_stack_data =
     (case old_stack_data of
        PDict d \<Rightarrow> Inr (self\<lparr>sm_old_stack := update_from_dict (sm_old_stack self) d\<rparr>)
      | _ \<Rightarrow> Inl (AttributeError (sq @ py_type_name old_stack_data @ sq
                     @ '' object has no attribute '' @ sq @ ''items'' @ sq)))"

subsection \<open>StackDataBuilder\<close>

text \<open>
  \<^verbatim>\<open>_read_file_safely\<close> (open, read, reject an empty or binary file with \<^verbatim>\<open>fail_json\<close>) is
  a parameter \<open>rd\<close> from the path to the bytes or the failure.  The builder caches what it
  read; the cache only saves a second read and is not modelled.
\<close>

type_synonym file_reader = "string \<Rightarrow> error + string"

definition read_file_once :: "file_reader \<Rightarrow> stack_manager \<Rightarrow> error + pyval" where
  "read_file_once rd self =
     (if truthy (sm_file self) then bind_err (rd (py_str (sm_file self))) (\<lambda>c. Inr (PBytes c))
      else Inr PNone)"

definition get_stack_file :: "file_reader \<Rightarrow> stack_manager \<Rightarrow> error + pyval" where
  "get_stack_file rd self =
     bind_err (read_file_once rd self) (\<lambda>content.
       if truthy content then Inr (PTuple [PStr ''file'', content, PStr ''application/x-yaml''])
       else Inr PNone)"

definition get_stack_file_content :: "file_reader \<Rightarrow> stack_manager \<Rightarrow> error + pyval" where
  "get_stack_file_content rd self =
     bind_err (read_file_once rd self) (\<lambda>content.
       if truthy content then
         (case content of PBytes b \<Rightarrow> Inr (PStr b) | _ \<Rightarrow> Inr content)
       else Inr PNone)"

text \<open>
  \<^verbatim>\<open>_get_lazy_data\<close>: fifteen values taken from the arguments, and two bound methods that
  are only called for the keys that survive the filter.
\<close>

datatype lazy = Value pyval | Call_get_stack_file | Call_get_stack_file_content

definition get_lazy_data :: "stack_manager \<Rightarrow> (string \<times> lazy) list" where
  "get_lazy_data self =
     [(PF_STACK_NAME, Value (sm_name self)),
      (PF_STACK_ENV, Value (sm_env self)),
      (PF_STACK_PRUNE, Value (sm_prune self)),
      (PF_STACK_PULL_IMAGES, Value (sm_pull_images self)),
      (PF_STACK_ADDITIONAL_FILES, Value (sm_additional_files self)),
      (PF_STACK_AUTOUPDATE, Value (sm_autoupdate self)),
      (PF_STACK_COMPOSE_FILE, Value (sm_compose_file self)),
      (PF_STACK_REPOSITORY_AUTHENTICATION, Value (sm_repository_authentication self)),
      (PF_STACK_REPOSITORY_PASSWORD, Value (sm_repository_password self)),
      (PF_STACK_REPOSITORY_REFERENCE_NAME, Value (sm_refs_name self)),
      (PF_STACK_REPOSITORY_URL, Value (sm_repository_url self)),
      (PF_STACK_REPOSITORY_USERNAME, Value (sm_repository_username self)),
      (PF_STACK_SWARM_ID, Value (sm_swarm_id self)),
      (PF_STACK_SWARM_ID_FORM_DATA, Value (sm_swarm_id self)),
      (PF_STACK_TLS_SKIP_VERIFY, Value (sm_tls_skip_verify self)),
      (PF_STACK_FILE, Call_get_stack_file),
      (PF_STACK_FILE_CONTENT, Call_get_stack_file_content)]"

text \<open>\<^verbatim>\<open>v() if callable(v) else v\<close>.\<close>

fun force :: "file_reader \<Rightarrow> stack_manager \<Rightarrow> lazy \<Rightarrow> error + pyval" where
  "force rd self (Value v) = Inr v"
| "force rd self Call_get_stack_file = get_stack_file rd self"
| "force rd self Call_get_stack_file_content = get_stack_file_content rd self"

text \<open>
  \<^verbatim>\<open>
  def _filter_keys(_data):
      _data = {k: v for k, v in _data.items() if k not in exclude_keys}
      if only_keys:
          _data = {k: v for k, v in _data.items() if k in only_keys}
      return _data
  \<close>
\<close>

definition filter_keys :: "string list \<Rightarrow> string list \<Rightarrow> (string \<times> 'v) list \<Rightarrow> (string \<times> 'v) list" where
  "filter_keys exclude_keys only_keys d =
     (let d1 = filter (\<lambda>(k, v). k \<notin> set exclude_keys) d
      in if only_keys \<noteq> [] then filter (\<lambda>(k, v). k \<in> set only_keys) d1 else d1)"

text \<open>
  \<^verbatim>\<open>
  def _get_merged_data(self, exclude_keys=None, only_keys=None):
      ...
      filtered_lazy_data = _filter_keys(lazy_data)
      data = {k: (v() if callable(v) else v) for k, v in filtered_lazy_data.items()}
      data = {k: v for k, v in data.items() if v is not None}
      data = {**_filter_keys(self.state_manager.old_stack.to_dict()), **data}
      return data
  \<close>
\<close>

definition get_merged_data ::
  "file_reader \<Rightarrow> stack_manager \<Rightarrow> string list option \<Rightarrow> string list option \<Rightarrow> error + dict" where
  "get_merged_data rd self exclude_keys0 only_keys0 =
     (let exclude_keys = or_empty exclude_keys0;
          only_keys = or_empty only_keys0;
          filtered_lazy_data = filter_keys exclude_keys only_keys (get_lazy_data self)
      in bind_err
           (map_err (\<lambda>(k, v). bind_err (force rd self v) (\<lambda>x. Inr (k, x))) filtered_lazy_data)
           (\<lambda>data.
              Inr (dict_update
                     (filter_keys exclude_keys only_keys (to_dict (sm_old_stack self)))
                     (filter (\<lambda>(k, v). v \<noteq> PNone) data))))"

datatype action = Create | Update | Redeploy

fun action_keys :: "StackConfig \<Rightarrow> action \<Rightarrow> string list" where
  "action_keys c Create = create_keys c"
| "action_keys c Update = update_keys c"
| "action_keys c Redeploy = redeploy_keys c"

text \<open>\<^verbatim>\<open>only_keys = list(set((only_keys or []) + action_keys[action]))\<close>.\<close>

definition get_data_for_action ::
  "file_reader \<Rightarrow> stack_manager \<Rightarrow> action \<Rightarrow> string list option \<Rightarrow> string list option
     \<Rightarrow> error + dict" where
  "get_data_for_action rd self act exclude_keys only_keys =
     get_merged_data rd self exclude_keys
       (Some (remdups (or_empty only_keys @ action_keys (sk_config self) act)))"

definition get_create_data :: "file_reader \<Rightarrow> stack_manager \<Rightarrow> error + dict" where
  "get_create_data rd self = get_data_for_action rd self Create None None"

definition get_update_data :: "file_reader \<Rightarrow> stack_manager \<Rightarrow> error + dict" where
  "get_update_data rd self = get_data_for_action rd self Update None None"

definition get_redeploy_data :: "file_reader \<Rightarrow> stack_manager \<Rightarrow> error + dict" where
  "get_redeploy_data rd self = get_data_for_action rd self Redeploy None None"

subsection \<open>StackRepository\<close>

definition get_endpoint_params :: "stack_manager \<Rightarrow> dict" where
  "get_endpoint_params self = [(PF_STACK_ENDPOINT_ID_QUERY, sm_endpoint_id self)]"

text \<open>
  \<^verbatim>\<open>get_stack\<close>: by id when one is given, else by name, filtered on the server by swarm id
  and locally by endpoint id.  \<open>dumps\<close> is \<^verbatim>\<open>json.dumps\<close>.
\<close>

definition repository_get_stack :: "(pyval \<Rightarrow> string) \<Rightarrow> server \<Rightarrow> stack_manager \<Rightarrow> pyval io" where
  "repository_get_stack dumps srv self =
     (if truthy (sm_stack_id self) then get_item_by_id srv (sk_crud self) (sm_stack_id self)
      else if \<not> truthy (sm_name self) then return_io PNone
      else
        validate_single_item srv (sk_crud self) (sm_name self) ''retrieve''
          (Some (if truthy (sm_swarm_id self)
                 then [(''filters'', PStr (dumps (PDict [(PF_STACK_SWARM_ID, sm_swarm_id self)])))]
                 else []))
          (Some (if truthy (sm_endpoint_id self)
                 then [(PF_STACK_ENDPOINT_ID, sm_endpoint_id self)]
                 else [])))"

text \<open>
  \<^verbatim>\<open>
  def update_stack(self):
      if not self.state_manager.stack.id:
          return
      stack_data = self.crud.update_item(
          self.state_manager.stack.id,
          changes=self.data_builder.get_update_data(),
          params=self._get_endpoint_params())
      self.state_manager.update_state(stack_data)
  \<close>
  and likewise \<^verbatim>\<open>redeploy_stack\<close> with \<^verbatim>\<open>crud.redeploy\<close> and \<^verbatim>\<open>get_redeploy_data\<close>,
  \<^verbatim>\<open>delete_stack\<close>, \<^verbatim>\<open>start_stack\<close> and \<^verbatim>\<open>stop_stack\<close>.
\<close>

definition update_stack :: "file_reader \<Rightarrow> server \<Rightarrow> stack_manager \<Rightarrow> stack_manager io" where
  "update_stack rd srv self =
     (if \<not> truthy (st_id (sm_stack self)) then return_io self
      else
        bind_io (lift_io (get_update_data rd self)) (\<lambda>changes.
        bind_io (update_item srv (sk_crud self) (st_id (sm_stack self)) changes
                   (Some (get_endpoint_params self))) (\<lambda>stack_data.
        return_io (update_state self stack_data))))"

definition redeploy_stack :: "file_reader \<Rightarrow> server \<Rightarrow> stack_manager \<Rightarrow> stack_manager io" where
  "redeploy_stack rd srv self =
     (if \<not> truthy (st_id (sm_stack self)) then return_io self
      else
        bind_io (lift_io (get_redeploy_data rd self)) (\<lambda>data.
        bind_io (redeploy srv (sk_crud self) (st_id (sm_stack self)) data
                   (Some (get_endpoint_params self))) (\<lambda>stack_data.
        return_io (update_state self stack_data))))"

text \<open>
  \<^verbatim>\<open>create_stack\<close> serialises \<^verbatim>\<open>Env\<close> for form-data payloads by reading \<^verbatim>\<open>data[PF.STACK_ENV]\<close>,
  which raises \<^verbatim>\<open>KeyError\<close> when the payload has no \<^verbatim>\<open>Env\<close>.
\<close>

definition create_stack ::
  "file_reader \<Rightarrow> (pyval \<Rightarrow> string) \<Rightarrow> server \<Rightarrow> stack_manager \<Rightarrow> stack_manager io" where
  "create_stack rd dumps srv self =
     (if \<not> truthy (sm_name self) then return_io self
      else
        bind_io (lift_io (get_create_data rd self)) (\<lambda>data0.
        bind_io (if create_body_format (sk_config self) = FORM_DATA then
                   (case map_of data0 PF_STACK_ENV of
                      None \<Rightarrow> raise_io (KeyError PF_STACK_ENV)
                    | Some env \<Rightarrow> return_io (dict_set data0 PF_STACK_ENV (PStr (dumps env))))
                 else return_io data0) (\<lambda>data.
        bind_io (create_item srv (sk_crud self) (sm_name self) (Some data)
                   (Some (create_body_format (sk_config self)))
                   (Some (get_endpoint_params self))) (\<lambda>stack_data.
        return_io (update_state self stack_data)))))"

definition delete_stack :: "server \<Rightarrow> stack_manager \<Rightarrow> stack_manager io" where
  "delete_stack srv self =
     (if \<not> truthy (st_id (sm_stack self)) then return_io self
      else
        bind_io (delete_item_by_id srv (sk_crud self) (st_id (sm_stack self))
                   (Some (get_endpoint_params self))) (\<lambda>u.
        return_io self))"

definition repository_start_stack :: "server \<Rightarrow> stack_manager \<Rightarrow> stack_manager io" where
  "repository_start_stack srv self =
     (if \<not> truthy (st_id (sm_stack self)) \<or> \<not> truthy (sm_endpoint_id self) then return_io self
      else
        bind_io (start_stack srv (sk_crud self) (st_id (sm_stack self)) (sm_endpoint_id self)) (\<lambda>u.
        return_io self))"

definition repository_stop_stack :: "server \<Rightarrow> stack_manager \<Rightarrow> stack_manager io" where
  "repository_stop_stack srv self =
     (if \<not> truthy (st_id (sm_stack self)) \<or> \<not> truthy (sm_endpoint_id self) then return_io self
      else
        bind_io (stop_stack srv (sk_crud self) (st_id (sm_stack self)) (sm_endpoint_id self)) (\<lambda>u.
        return_io self))"

subsection \<open>StackValidator\<close>

text \<open>\<^verbatim>\<open>sep.join(xs)\<close>.\<close>

fun join :: "string \<Rightarrow> string list \<Rightarrow> string" where
  "join sep [] = []"
| "join sep [x] = x"
| "join sep (x # y # ys) = x @ sep @ join sep (y # ys)"

definition maybe_stack_exists :: "stack_manager \<Rightarrow> bool" where
  "maybe_stack_exists self =
     (let has_id = sm_stack_id self \<noteq> PNone;
          has_name = sm_name self \<noteq> PNone;
          has_endpoint = sm_endpoint_id self \<noteq> PNone;
          has_swarm = sm_swarm_id self \<noteq> PNone
      in if py_eq (sm_stack_type self) (PStr ''swarm'') then
           has_id \<or> (has_name \<and> (has_endpoint \<or> has_swarm))
         else if py_eq (sm_stack_type self) (PStr ''standalone'') then
           has_id \<or> (has_name \<and> has_endpoint)
         else False)"

definition fail_json :: "string \<Rightarrow> error + 'a" where
  "fail_json msg = Inl (FailJson msg [])"

definition validate_new_stack_requirements :: "stack_manager \<Rightarrow> error + unit" where
  "validate_new_stack_requirements self =
     (if sm_state self \<noteq> ''present'' \<or> maybe_stack_exists self then Inr ()
      else if py_eq (sm_stack_type self) (PStr ''standalone'') \<and> sm_endpoint_id self = PNone then
        fail_json (''Provide '' @ sq @ ''endpoint_id'' @ sq @ '' when creating new standalone stacks.'')
      else if py_eq (sm_stack_type self) (PStr ''swarm'') then
        (let missing = (if sm_endpoint_id self = PNone then [''endpoint_id''] else [])
                         @ (if sm_swarm_id self = PNone then [''swarm_id''] else [])
         in if missing \<noteq> [] then
              fail_json (''Provide '' @ join '' and '' missing @ '' when creating new swarm stacks.'')
            else Inr ())
      else Inr ())"

definition validate_stack_source_requirements :: "stack_manager \<Rightarrow> error + unit" where
  "validate_stack_source_requirements self =
     (if sm_state self \<noteq> ''present'' then Inr ()
      else if py_eq (sm_stack_source self) (PStr ''file'') \<and> sm_file self = PNone then
        fail_json (''Provide '' @ sq @ ''file'' @ sq @ '' for file-based stacks.'')
      else if py_eq (sm_stack_source self) (PStr ''repository'') then
        (let missing = map fst (filter (\<lambda>(k, v). v = PNone)
                         [(''repository_url'', sm_repository_url self),
                          (''compose_file'', sm_compose_file self),
                          (''refs_name'', sm_refs_name self),
                          (''repository_authentication'', sm_repository_authentication self)])
         in if \<not> maybe_stack_exists self \<and> missing \<noteq> [] then
              fail_json (''Provide '' @ join '', '' missing @ '' for repository-based stacks.'')
            else if truthy (sm_repository_authentication self)
                    \<and> (\<not> truthy (sm_repository_username self)
                        \<or> \<not> truthy (sm_repository_password self)) then
              fail_json (''Provide '' @ sq @ ''repository_username'' @ sq @ '' and '' @ sq
                         @ ''repository_password'' @ sq
                         @ '' when repository_authentication is True.'')
            else Inr ())
      else Inr ())"

text \<open>\<^verbatim>\<open>getattr(self.state_manager, arg, None)\<close> for the names that \<^verbatim>\<open>required_one_of\<close> lists.\<close>

definition getattr_state_manager :: "stack_manager \<Rightarrow> string \<Rightarrow> pyval" where
  "getattr_state_manager self a =
     (if a = ''stack_id'' then sm_stack_id self
      else if a = ''name'' then sm_name self
      else if a = ''endpoint_id'' then sm_endpoint_id self
      else if a = ''swarm_id'' then sm_swarm_id self
      else PNone)"

definition validate_config_requirements :: "stack_manager \<Rightarrow> error + unit" where
  "validate_config_requirements self =
     (let roo = required_one_of (sk_config self) in
      if roo \<noteq> []
         \<and> \<not> (\<exists>args \<in> set roo. \<forall>arg \<in> set args. getattr_state_manager self arg \<noteq> PNone) then
        fail_json (''Provide one of the required field combinations: ''
                   @ join '' or '' (map (join '' + '') roo))
      else Inr ())"

definition validate_args :: "stack_manager \<Rightarrow> error + unit" where
  "validate_args self =
     bind_err (validate_new_stack_requirements self) (\<lambda>u.
     bind_err (validate_stack_source_requirements self) (\<lambda>u.
     validate_config_requirements self))"

subsection \<open>StackManager\<close>

text \<open>
  \<^verbatim>\<open>
  def needs_update(self, old_data=None, new_data=None):
      old_data = old_data or self.old_stack.to_dict()
      new_data = new_data or self.data_builder.get_update_data()
      is_repository = self.state_manager.stack_source == "repository"
      changes = self.idempotency.needs_update(
          existing_data=old_data, new_data=new_data,
          skip_fields=self.config.skip_fields_from_changes)
      if is_repository and self.state_manager.update_password:
          # Always marking task as changed and sending an update
          # when update_password for repository stacks is true
          return True, changes
      return bool(changes), changes
  \<close>
  It is only called without arguments.
\<close>

definition stack_needs_update :: "file_reader \<Rightarrow> stack_manager \<Rightarrow> error + bool \<times> dict" where
  "stack_needs_update rd self =
     (let old_data = to_dict (sm_old_stack self) in
      bind_err (get_update_data rd self) (\<lambda>new_data.
        let is_repository = py_eq (sm_stack_source self) (PStr ''repository'');
            changes = needs_update old_data new_data
                        (Some (skip_fields_from_changes (sk_config self)))
        in if is_repository \<and> truthy (sm_update_password self) then Inr (True, changes)
           else Inr (changes \<noteq> [], changes)))"

definition set_stack_result :: "stack_manager \<Rightarrow> string \<Rightarrow> pyval \<Rightarrow> stack_manager" where
  "set_stack_result self k v = self\<lparr>sk_results := dict_set (sk_results self) k v\<rparr>"

text \<open>
  \<^verbatim>\<open>
  def ensure_present(self):
      if self.stack.id:
          changed, changes = self.needs_update()
          if not changed:
              self.results["msg"] = "Stack already exists with correct configuration."
              return
          if not self.check_mode:
              self.repository.update_stack()
          else:
              self.state_manager.update_state(changes)
          self.results["changed"] = True
          self.results["msg"] = "Stack updated."
      else:
          if not self.check_mode:
              self.repository.create_stack()
          self.results["changed"] = True
          self.results["msg"] = "Stack created."
  \<close>
\<close>

definition stack_ensure_present ::
  "file_reader \<Rightarrow> (pyval \<Rightarrow> string) \<Rightarrow> server \<Rightarrow> stack_manager \<Rightarrow> stack_manager io" where
  "stack_ensure_present rd dumps srv self =
     (if truthy (st_id (sm_stack self)) then
        bind_io (lift_io (stack_needs_update rd self)) (\<lambda>(changed, changes).
          if \<not> changed then
            return_io (set_stack_result self ''msg''
                         (PStr ''Stack already exists with correct configuration.''))
          else
            bind_io (if \<not> sk_check_mode self then update_stack rd srv self
                     else return_io (update_state self (PDict changes))) (\<lambda>self1.
            return_io (set_stack_result (set_stack_result self1 ''changed'' (PBool True))
                         ''msg'' (PStr ''Stack updated.''))))
      else
        bind_io (if \<not> sk_check_mode self then create_stack rd dumps srv self
                 else return_io self) (\<lambda>self1.
        return_io (set_stack_result (set_stack_result self1 ''changed'' (PBool True))
                     ''msg'' (PStr ''Stack created.''))))"

definition stack_ensure_absent :: "server \<Rightarrow> stack_manager \<Rightarrow> stack_manager io" where
  "stack_ensure_absent srv self =
     (if truthy (st_id (sm_stack self)) then
        bind_io (if \<not> sk_check_mode self then delete_stack srv self else return_io self) (\<lambda>self1.
        return_io (set_stack_result (set_stack_result self1 ''changed'' (PBool True))
                     ''msg'' (PStr ''Stack deleted'')))
      else return_io (set_stack_result self ''msg'' (PStr ''Stack does not exist'')))"

text \<open>
  \<^verbatim>\<open>
  def ensure_redeployed(self):
      if self.stack.id:
          if not self.check_mode:
              if self.state_manager.stack_source == "repository":
                  self.repository.redeploy_stack()
              else:
                  self.repository.update_stack()
          self.results["changed"] = True
          self.results["msg"] = "Stack redeployed."
      else:
          self.module.fail_json(msg="Cannot redeploy an inexistent stack.")
  \<close>
\<close>

definition ensure_redeployed :: "file_reader \<Rightarrow> server \<Rightarrow> stack_manager \<Rightarrow> stack_manager io" where
  "ensure_redeployed rd srv self =
     (if truthy (st_id (sm_stack self)) then
        bind_io (if \<not> sk_check_mode self then
                   (if py_eq (sm_stack_source self) (PStr ''repository'')
                    then redeploy_stack rd srv self
                    else update_stack rd srv self)
                 else return_io self) (\<lambda>self1.
        return_io (set_stack_result (set_stack_result self1 ''changed'' (PBool True))
                     ''msg'' (PStr ''Stack redeployed.'')))
      else lift_io (fail_json ''Cannot redeploy an inexistent stack.''))"

text \<open>\<^verbatim>\<open>StackStatus.RUNNING = 1\<close>, \<^verbatim>\<open>StackStatus.STOPPED = 2\<close>.\<close>

definition ensure_started :: "server \<Rightarrow> stack_manager \<Rightarrow> stack_manager io" where
  "ensure_started srv self =
     (if \<not> truthy (st_id (sm_stack self)) then
        lift_io (fail_json ''Cannot start a non-existent stack.'')
      else if py_eq (st_status (sm_stack self)) (PInt 1) then
        return_io (set_stack_result (set_stack_result self ''msg'' (PStr ''Stack is already running''))
                     ''changed'' (PBool False))
      else
        bind_io (if \<not> sk_check_mode self then repository_start_stack srv self
                 else return_io self) (\<lambda>self1.
        return_io (set_stack_result (set_stack_result self1 ''msg'' (PStr ''Stack started''))
                     ''changed'' (PBool True))))"

definition ensure_stopped :: "server \<Rightarrow> stack_manager \<Rightarrow> stack_manager io" where
  "ensure_stopped srv self =
     (if \<not> truthy (st_id (sm_stack self)) then
        lift_io (fail_json ''Cannot stop a non-existent stack.'')
      else if py_eq (st_status (sm_stack self)) (PInt 2) then
        return_io (set_stack_result (set_stack_result self ''msg'' (PStr ''Stack is not running''))
                     ''changed'' (PBool False))
      else
        bind_io (if \<not> sk_check_mode self then repository_stop_stack srv self
                 else return_io self) (\<lambda>self1.
        return_io (set_stack_result (set_stack_result self1 ''msg'' (PStr ''Stack stopped''))
                     ''changed'' (PBool True))))"

text \<open>
  \<^verbatim>\<open>run\<close>: validate, load the stack, run the handler of the target state, and report.  The
  reported representation is \<^verbatim>\<open>self.stack.to_dict()\<close> or, when that is empty, the payload
  a create would send, under the ids the arguments gave.
\<close>

definition stack_state_function ::
  "file_reader \<Rightarrow> (pyval \<Rightarrow> string) \<Rightarrow> server \<Rightarrow> stack_manager \<Rightarrow> stack_manager io" where
  "stack_state_function rd dumps srv self =
     (if sm_state self = ''present'' then stack_ensure_present rd dumps srv self
      else if sm_state self = ''absent'' then stack_ensure_absent srv self
      else if sm_state self = ''redeployed'' then ensure_redeployed rd srv self
      else if sm_state self = ''started'' then ensure_started srv self
      else if sm_state self = ''stopped'' then ensure_stopped srv self
      else lift_io (fail_json (''Internal error: state '' @ sq @ sm_state self @ sq
                      @ '' is not mapped. This is a bug in the module - please report it.'')))"

definition reported_stack :: "file_reader \<Rightarrow> stack_manager \<Rightarrow> error + dict" where
  "reported_stack rd self =
     (let d = to_dict (sm_stack self) in
      if d \<noteq> [] then Inr d
      else bind_err (get_create_data rd self) (\<lambda>create_data.
             Inr (dict_update [(PF_STACK_ID, sm_stack_id self),
                               (PF_STACK_ENDPOINT_ID, sm_endpoint_id self),
                               (PF_STACK_SWARM_ID, sm_swarm_id self)] create_data)))"

definition stack_report :: "file_reader \<Rightarrow> stack_manager \<Rightarrow> stack_manager io" where
  "stack_report rd self =
     bind_io (lift_io (reported_stack rd self)) (\<lambda>reported.
       let self1 = set_stack_result self ''stack'' (PDict reported) in
       if sk_diff_mode self1 then
         bind_io (lift_io (build_diff (PDict (to_dict (sm_old_stack self1))) (PDict reported)
                             (Some (skip_fields_from_changes (sk_config self1))))) (\<lambda>diff.
         return_io (set_stack_result self1 ''diff'' diff))
       else return_io self1)"

definition run :: "file_reader \<Rightarrow> (pyval \<Rightarrow> string) \<Rightarrow> server \<Rightarrow> stack_manager \<Rightarrow> stack_manager io" where
  "run rd dumps srv self =
     bind_io (lift_io (validate_args self)) (\<lambda>u.
     bind_io (repository_get_stack dumps srv self) (\<lambda>stack_data.
     bind_io (if truthy stack_data then lift_io (set_old_stack (update_state self stack_data) stack_data)
              else return_io self) (\<lambda>self1.
     bind_io (stack_state_function rd dumps srv self1) (stack_report rd))))"

text \<open>
  \<^verbatim>\<open>StackManager.for_stack\<close> wires a run from the module arguments; \<open>args\<close> carries them in
  its \<open>sm_\<close> fields and the mode flags.  \<^verbatim>\<open>main\<close> starts from \<^verbatim>\<open>results = dict(changed=False)\<close>,
  and turns what escapes \<^verbatim>\<open>run\<close> into a failure payload: an API error with its fields, any
  other exception as \<^verbatim>\<open>Error managing stacks: ...\<close>; \<^verbatim>\<open>fail_json\<close> passes through.  (The
  reachability check before the run is not modelled.)
\<close>

definition StackManager_for_stack :: "stack_manager \<Rightarrow> error + stack_manager" where
  "StackManager_for_stack args =
     bind_err (for_stack (sm_stack_type args) (sm_stack_source args)) (\<lambda>c.
       Inr (args\<lparr>sm_stack := Stack_init, sm_old_stack := Stack_init, sk_config := c,
                 sk_crud := StackCRUD_init (sm_stack_type args) (sm_stack_source args),
                 sk_results := [(''changed'', PBool False)]\<rparr>))"

fun error_str :: "error \<Rightarrow> string" where
  "error_str (ValueError m) = m"
| "error_str (KeyError k) = sq @ k @ sq"
| "error_str (TypeError m) = m"
| "error_str (AttributeError m) = m"
| "error_str (ItemNotExists m) = m"
| "error_str (MultipleItemsReturned m ids) = m"
| "error_str (PortainerApiError e) = ae_message e"
| "error_str (FailJson m kw) = m"

fun stack_main_except :: "error \<Rightarrow> error" where
  "stack_main_except (PortainerApiError e) =
     FailJson (''API request failed: '' @ ae_message e)
       [(''status'', PInt (ae_status e)), (''body'', PStr (ae_body e)), (''url'', PStr (ae_url e)),
        (''method'', PStr (ae_method e)), (''data'', PDict (ae_data e))]"
| "stack_main_except (FailJson m kw) = FailJson m kw"
| "stack_main_except e = FailJson (''Error managing stacks: '' @ error_str e) []"

definition stack_main ::
  "file_reader \<Rightarrow> (pyval \<Rightarrow> string) \<Rightarrow> server \<Rightarrow> stack_manager \<Rightarrow> dict io" where
  "stack_main rd dumps srv args log =
     (case StackManager_for_stack args of
        Inl e \<Rightarrow> (Inl (stack_main_except e), log)
      | Inr self \<Rightarrow>
          (case run rd dumps srv self log of
             (Inl e, log') \<Rightarrow> (Inl (stack_main_except e), log')
           | (Inr self', log') \<Rightarrow> (Inr (sk_results self'), log')))"

section \<open>Fixtures\<close>

text \<open>
  A client as the unit tests configure it, and library functions for the examples: a
  \<^verbatim>\<open>fetch_url\<close> that answers every request with the status \<open>st\<close>.
\<close>

definition demo_ext :: "int \<Rightarrow> externals" where
  "demo_ext st =
     \<lparr>json_dumps = (\<lambda>d. ''{}''),
      json_loads = (\<lambda>s. Inr (PDict [])),
      urlencode = (\<lambda>d. []),
      encode_multipart_formdata = (\<lambda>d. ([], [])),
      fetch_url = (\<lambda>a. (Some ''{}'', \<lparr>i_status = st, i_msg = ''msg'', i_body = Some ''body''\<rparr>))\<rparr>"

definition demo_client :: client where
  "demo_client = \<lparr>portainer_url = ''https://portainer.example.com'', portainer_token = ''secret-token'',
     timeout = 30, headers = []\<rparr>"

text \<open>
  For the config module: no file can be read, and \<^verbatim>\<open>b64encode\<close> knows the one content of
  the unit tests.  \<open>one_config\<close> answers every request with a list of one config, as the
  mocked transport of \<^verbatim>\<open>test_config_already_exists_no_change\<close> does.
\<close>

definition demo_config_env :: config_env where
  "demo_config_env =
     \<lparr>read_text = (\<lambda>path. Inl FileNotFoundError),
      b64encode = (\<lambda>raw. ''Q29uZmlnIGRhdGE='')\<rparr>"

definition one_config :: server where
  "one_config = (\<lambda>log c. Inr (PList [PDict [(PF_CONFIG_ID, PInt 1),
     (PF_CONFIG_NAME, PStr ''test_config''), (PF_CONFIG_DATA, PStr ''Config data'')]]))"

section \<open>Properties\<close>

subsection \<open>Python values\<close>

lemma py_eq_PNone [simp]: "py_eq v PNone \<longleftrightarrow> v = PNone"
  by (cases v) auto

lemma py_eq_PStr [simp]: "py_eq v (PStr s) \<longleftrightarrow> v = PStr s"
  by (cases v) auto

lemma dict_set_fresh: "k \<notin> fst ` set d \<Longrightarrow> dict_set d k v = d @ [(k, v)]"
  unfolding dict_set_def by (induction d) auto

lemma map_of_filter_distinct:
  "distinct (map fst d) \<Longrightarrow>
   map_of (filter P d) k =
     (case map_of d k of None \<Rightarrow> None | Some v \<Rightarrow> if P (k, v) then Some v else None)"
proof (induction d)
  case Nil
  then show ?case by simp
next
  case (Cons p d)
  obtain k' v' where p: "p = (k', v')" by (cases p)
  from Cons.prems have fresh: "k' \<notin> fst ` set d" and dist: "distinct (map fst d)"
    by (auto simp: p)
  from fresh have none: "map_of d k' = None"
    by (simp add: map_of_eq_None_iff)
  show ?case
    using Cons.IH [OF dist] none by (auto simp: p split: option.splits)
qed

subsection \<open>The change-set\<close>

lemma needs_update_fold:
  "distinct (map fst new_data) \<Longrightarrow> fst ` set new_data \<inter> fst ` set acc = {} \<Longrightarrow>
   fold (needs_update_step existing skip) new_data acc =
     acc @ filter (\<lambda>(k, v). k \<notin> set skip \<and> \<not> py_eq v (dict_get existing k)) new_data"
proof (induction new_data arbitrary: acc)
  case Nil
  then show ?case by simp
next
  case (Cons p new_data)
  obtain k v where p: "p = (k, v)" by (cases p)
  from Cons.prems have k_acc: "k \<notin> fst ` set acc"
    and k_rest: "k \<notin> fst ` set new_data"
    and dist: "distinct (map fst new_data)"
    and disj: "fst ` set new_data \<inter> fst ` set acc = {}"
    by (auto simp: p)
  show ?case
  proof (cases "k \<notin> set skip \<and> \<not> py_eq v (dict_get existing k)")
    case True
    then have step: "needs_update_step existing skip p acc = acc @ [(k, v)]"
      using k_acc by (simp add: needs_update_step_def p dict_set_fresh)
    have "fst ` set new_data \<inter> fst ` set (acc @ [(k, v)]) = {}"
      using disj k_rest by auto
    from Cons.IH [OF dist this] step True show ?thesis
      by (simp add: p)
  next
    case False
    then have step: "needs_update_step existing skip p acc = acc"
      by (auto simp: needs_update_step_def p)
    from Cons.IH [OF dist disj] step False show ?thesis
      by (auto simp: p)
  qed
qed

lemma needs_update_filter:
  assumes "distinct (map fst new_data)"
  shows "needs_update existing new_data skip_fields =
     filter (\<lambda>(k, v). v \<noteq> PNone)
       (filter (\<lambda>(k, v). k \<notin> set (or_empty skip_fields)
                  \<and> \<not> py_eq v (dict_get existing k)) new_data)"
  using needs_update_fold [OF assms, of "[]"] by (simp add: needs_update_def)

lemma needs_update_lookup:
  assumes "distinct (map fst new_data)"
  shows "map_of (needs_update existing new_data skip_fields) k =
     (case map_of new_data k of
        None \<Rightarrow> None
      | Some v \<Rightarrow>
          if k \<notin> set (or_empty skip_fields) \<and> v \<noteq> PNone
             \<and> \<not> py_eq v (dict_get existing k)
          then Some v else None)"
proof -
  let ?P = "\<lambda>(k, v). k \<notin> set (or_empty skip_fields)
              \<and> \<not> py_eq v (dict_get existing k)"
  have d: "distinct (map fst (filter ?P new_data))"
    using assms by (rule distinct_map_filter)
  show ?thesis
    unfolding needs_update_filter [OF assms]
    by (simp add: map_of_filter_distinct [OF d] map_of_filter_distinct [OF assms]
        split: option.splits)
qed

text \<open>
  Claim C2.  For every call \<open>needs_update existing desired skip_fields\<close> (on a dict
  \<open>desired\<close>, whose keys are distinct as in every Python dict) the change-set holds
  exactly the keys \<open>k\<close> of \<open>desired\<close> that are not in \<open>skip_fields\<close>, whose desired value is
  not \<^verbatim>\<open>None\<close> and differs (Python's \<^verbatim>\<open>!=\<close>) from \<^verbatim>\<open>existing.get(k)\<close>, each with its
  desired value; a key absent from \<open>existing\<close> counts as differing; a desired \<^verbatim>\<open>None\<close>
  never appears, whatever \<open>existing\<close> holds; and the change-set is empty exactly when no
  key qualifies.
\<close>

theorem needs_update_change_set:
  assumes "distinct (map fst desired)"
  shows "(\<forall>k. k \<in> dict_keys (needs_update existing desired skip_fields) \<longleftrightarrow>
            (\<exists>v. map_of desired k = Some v \<and> k \<notin> set (or_empty skip_fields) \<and> v \<noteq> PNone
                 \<and> \<not> py_eq v (dict_get existing k)))
       \<and> (\<forall>k v. map_of (needs_update existing desired skip_fields) k = Some v
             \<longrightarrow> map_of desired k = Some v)
       \<and> (\<forall>k v. map_of desired k = Some v \<and> k \<notin> set (or_empty skip_fields) \<and> v \<noteq> PNone
                \<and> k \<notin> dict_keys existing
             \<longrightarrow> map_of (needs_update existing desired skip_fields) k = Some v)
       \<and> (\<forall>k. map_of desired k = Some PNone
             \<longrightarrow> k \<notin> dict_keys (needs_update existing desired skip_fields))
       \<and> distinct (map fst (needs_update existing desired skip_fields))
       \<and> (needs_update existing desired skip_fields = [] \<longleftrightarrow>
            (\<forall>k v. map_of desired k = Some v \<longrightarrow>
               k \<in> set (or_empty skip_fields) \<or> v = PNone \<or> py_eq v (dict_get existing k)))"
proof -
  define changes where "changes = needs_update existing desired skip_fields"
  define skip where "skip = or_empty skip_fields"
  note look = needs_update_lookup [OF assms, of existing skip_fields,
      folded skip_def changes_def]
  have keys: "\<And>k. k \<in> dict_keys changes \<longleftrightarrow> map_of changes k \<noteq> None"
    by (simp add: dict_keys_def map_of_eq_None_iff)
  have 1: "k \<in> dict_keys changes \<longleftrightarrow>
           (\<exists>v. map_of desired k = Some v \<and> k \<notin> set skip \<and> v \<noteq> PNone
                \<and> \<not> py_eq v (dict_get existing k))" for k
    unfolding keys look by (auto split: option.splits)
  have 2: "map_of changes k = Some v \<longrightarrow> map_of desired k = Some v" for k v
    unfolding look by (auto split: option.splits if_splits)
  have absent: "k \<notin> dict_keys existing \<Longrightarrow> dict_get existing k = PNone" for k
    by (simp add: dict_get_def dict_keys_def map_of_eq_None_iff [symmetric])
  have 3: "map_of desired k = Some v \<and> k \<notin> set skip \<and> v \<noteq> PNone \<and> k \<notin> dict_keys existing
           \<longrightarrow> map_of changes k = Some v" for k v
    unfolding look using absent by auto
  have 4: "map_of desired k = Some PNone \<longrightarrow> k \<notin> dict_keys changes" for k
    unfolding keys look by simp
  have 5: "distinct (map fst changes)"
    unfolding changes_def needs_update_filter [OF assms]
    by (intro distinct_map_filter assms)
  have "changes = [] \<longleftrightarrow> (\<forall>k. k \<notin> dict_keys changes)"
    by (cases changes) (auto simp: dict_keys_def)
  then have 6: "changes = [] \<longleftrightarrow>
           (\<forall>k v. map_of desired k = Some v \<longrightarrow>
              k \<in> set skip \<or> v = PNone \<or> py_eq v (dict_get existing k))"
    unfolding 1 by blast
  from 1 2 3 4 5 6 show ?thesis
    unfolding changes_def skip_def by blast
qed

theorem needs_update_change_set_witness:
  "distinct (map fst [(''Name'', PStr ''web''), (''Data'', PStr ''bmV3''), (''Labels'', PNone),
      (''UpdateDate'', PInt 7), (''Driver'', PStr ''overlay'')])
   \<and> needs_update
       [(''Name'', PStr ''web''), (''Data'', PStr ''b2xk''), (''Labels'', PDict [])]
       [(''Name'', PStr ''web''), (''Data'', PStr ''bmV3''), (''Labels'', PNone),
        (''UpdateDate'', PInt 7), (''Driver'', PStr ''overlay'')]
       (Some [''UpdateDate''])
     = [(''Data'', PStr ''bmV3''), (''Driver'', PStr ''overlay'')]
   \<and> ''Labels'' \<notin> dict_keys (needs_update
       [(''Name'', PStr ''web''), (''Data'', PStr ''b2xk''), (''Labels'', PDict [])]
       [(''Name'', PStr ''web''), (''Data'', PStr ''bmV3''), (''Labels'', PNone),
        (''UpdateDate'', PInt 7), (''Driver'', PStr ''overlay'')]
       (Some [''UpdateDate'']))"
proof -
  have d: "distinct (map fst [(''Name'', PStr ''web''), (''Data'', PStr ''bmV3''),
      (''Labels'', PNone), (''UpdateDate'', PInt 7), (''Driver'', PStr ''overlay'')])"
    by simp
  have e: "needs_update
       [(''Name'', PStr ''web''), (''Data'', PStr ''b2xk''), (''Labels'', PDict [])]
       [(''Name'', PStr ''web''), (''Data'', PStr ''bmV3''), (''Labels'', PNone),
        (''UpdateDate'', PInt 7), (''Driver'', PStr ''overlay'')]
       (Some [''UpdateDate''])
     = [(''Data'', PStr ''bmV3''), (''Driver'', PStr ''overlay'')]"
    by code_simp
  from needs_update_change_set [OF d,
      of "[(''Name'', PStr ''web''), (''Data'', PStr ''b2xk''), (''Labels'', PDict [])]"
         "Some [''UpdateDate'']"]
  have "''Labels'' \<notin> dict_keys (needs_update
       [(''Name'', PStr ''web''), (''Data'', PStr ''b2xk''), (''Labels'', PDict [])]
       [(''Name'', PStr ''web''), (''Data'', PStr ''bmV3''), (''Labels'', PNone),
        (''UpdateDate'', PInt 7), (''Driver'', PStr ''overlay'')]
       (Some [''UpdateDate'']))"
    by simp
  with d e show ?thesis by blast
qed

subsection \<open>The stack representation\<close>








subsection \<open>Endpoint and verb selection of the stack adapter\<close>

lemma StackCRUD_fields [simp]:
  "cls (StackCRUD_init t s) = StackCRUD"
  "stack_type (StackCRUD_init t s) = t"
  "stack_source (StackCRUD_init t s) = s"
  "endpoint_attr (StackCRUD_init t s) = ''/stacks''"
  "name_field (StackCRUD_init t s) = PF_STACK_NAME"
  "id_field (StackCRUD_init t s) = PF_STACK_ID"
  "resource_name (StackCRUD_init t s) = ''stack''"
  by (simp_all add: StackCRUD_init_def BaseCRUD_init_def)

lemma endpoint_Stack [simp]: "endpoint (StackCRUD_init t s) = Inr ''/stacks''"
  by (simp add: endpoint_def is_docker_def)

lemma get_create_endpoint_Stack: "get_create_endpoint (StackCRUD_init (PStr t) (PStr s)) = Inr (''/stacks/create/'' @ t @ ''/'' @ s)"
  by (simp add: get_create_endpoint_def bind_err_def)

lemma get_update_endpoint_Stack: "get_update_endpoint (StackCRUD_init t s) i =
   Inr (if t = PStr ''swarm'' \<and> s = PStr ''repository'' then ''/stacks/'' @ py_str i @ ''/git'' else ''/stacks/'' @ py_str i)"
  by (simp add: get_update_endpoint_def bind_err_def)

lemma update_method_Stack: "update_method (StackCRUD_init t s) =
   (if t = PStr ''swarm'' \<and> s = PStr ''repository'' then POST else PUT)"
  by (simp add: update_method_def)

lemma update_item_Stack_log:
  "i \<noteq> PNone \<Longrightarrow> snd (update_item srv (StackCRUD_init t s) i changes params log) =
     log @ [\<lparr>c_method = update_method (StackCRUD_init t s),
             c_endpoint = (if t = PStr ''swarm'' \<and> s = PStr ''repository'' then ''/stacks/'' @ py_str i @ ''/git'' else ''/stacks/'' @ py_str i),
             c_params = params, c_data = Some changes, c_body_format = None\<rparr>]"
  unfolding update_item_def
  by (simp add: get_update_endpoint_Stack bind_io_def lift_io_def client_request_def split: sum.splits prod.splits)

text \<open>
  Claim C3.  The create endpoint of the stack adapter is
  \<^verbatim>\<open>/stacks/create/{stack_type}/{stack_source}\<close> for each of the four combinations (and for
  any other pair of strings).  The update endpoint is \<^verbatim>\<open>/stacks/{id}/git\<close> and the verb
  \<^verbatim>\<open>POST\<close> for swarm with repository, and that combination is the only one with this
  endpoint and this verb; for the other three the endpoint is \<^verbatim>\<open>/stacks/{id}\<close> and the verb
  \<^verbatim>\<open>PUT\<close>.  \<^verbatim>\<open>update_item\<close> with an id issues exactly one call, with that verb and path.
\<close>

theorem stack_endpoint_selection:
  "get_create_endpoint (StackCRUD_init (PStr ''standalone'') (PStr ''file'')) = Inr ''/stacks/create/standalone/file''
   \<and> get_create_endpoint (StackCRUD_init (PStr ''standalone'') (PStr ''repository'')) = Inr ''/stacks/create/standalone/repository''
   \<and> get_create_endpoint (StackCRUD_init (PStr ''swarm'') (PStr ''file'')) = Inr ''/stacks/create/swarm/file''
   \<and> get_create_endpoint (StackCRUD_init (PStr ''swarm'') (PStr ''repository'')) = Inr ''/stacks/create/swarm/repository''
   \<and> (\<forall>t s. get_create_endpoint (StackCRUD_init (PStr t) (PStr s)) = Inr (''/stacks/create/'' @ t @ ''/'' @ s))
   \<and> get_update_endpoint (StackCRUD_init (PStr ''swarm'') (PStr ''repository'')) i = Inr (''/stacks/'' @ py_str i @ ''/git'')
   \<and> update_method (StackCRUD_init (PStr ''swarm'') (PStr ''repository'')) = POST
   \<and> get_update_endpoint (StackCRUD_init (PStr ''standalone'') (PStr ''file'')) i = Inr (''/stacks/'' @ py_str i)
   \<and> update_method (StackCRUD_init (PStr ''standalone'') (PStr ''file'')) = PUT
   \<and> get_update_endpoint (StackCRUD_init (PStr ''standalone'') (PStr ''repository'')) i = Inr (''/stacks/'' @ py_str i)
   \<and> update_method (StackCRUD_init (PStr ''standalone'') (PStr ''repository'')) = PUT
   \<and> get_update_endpoint (StackCRUD_init (PStr ''swarm'') (PStr ''file'')) i = Inr (''/stacks/'' @ py_str i)
   \<and> update_method (StackCRUD_init (PStr ''swarm'') (PStr ''file'')) = PUT
   \<and> (\<forall>t s. (update_method (StackCRUD_init t s) = POST) = (t = PStr ''swarm'' \<and> s = PStr ''repository''))
   \<and> (\<forall>t s. (get_update_endpoint (StackCRUD_init t s) i = Inr (''/stacks/'' @ py_str i @ ''/git''))
         = (t = PStr ''swarm'' \<and> s = PStr ''repository''))
   \<and> (\<forall>t s srv changes params log. i \<noteq> PNone \<longrightarrow>
         (\<exists>path. get_update_endpoint (StackCRUD_init t s) i = Inr path
            \<and> snd (update_item srv (StackCRUD_init t s) i changes params log)
              = log @ [\<lparr>c_method = update_method (StackCRUD_init t s), c_endpoint = path,
                        c_params = params, c_data = Some changes, c_body_format = None\<rparr>]))"
  by (simp add: get_create_endpoint_Stack get_update_endpoint_Stack update_method_Stack update_item_Stack_log)

theorem stack_endpoint_selection_witness:
  "snd (update_item (\<lambda>log c. Inr (PDict [])) (StackCRUD_init (PStr ''swarm'') (PStr ''repository''))
         (PInt 5) [(PF_STACK_PRUNE, PBool True)] None [])
     = [\<lparr>c_method = POST, c_endpoint = ''/stacks/5/git'', c_params = None,
         c_data = Some [(PF_STACK_PRUNE, PBool True)], c_body_format = None\<rparr>]
   \<and> snd (update_item (\<lambda>log c. Inr (PDict [])) (StackCRUD_init (PStr ''standalone'') (PStr ''file''))
         (PInt 5) [(PF_STACK_PRUNE, PBool True)] None [])
     = [\<lparr>c_method = PUT, c_endpoint = ''/stacks/5'', c_params = None,
         c_data = Some [(PF_STACK_PRUNE, PBool True)], c_body_format = None\<rparr>]"
proof -
  have s5: "str_int 5 = ''5''" by code_simp
  from stack_endpoint_selection [of "PInt 5"]
  have L: "\<And>t s srv changes params log.
         \<exists>path. get_update_endpoint (StackCRUD_init t s) (PInt 5) = Inr path
            \<and> snd (update_item srv (StackCRUD_init t s) (PInt 5) changes params log)
              = log @ [\<lparr>c_method = update_method (StackCRUD_init t s), c_endpoint = path,
                        c_params = params, c_data = Some changes, c_body_format = None\<rparr>]"
    by simp
  from L [of "PStr ''swarm''" "PStr ''repository''" "\<lambda>log c. Inr (PDict [])"
        "[(PF_STACK_PRUNE, PBool True)]" None "[]"]
       L [of "PStr ''standalone''" "PStr ''file''" "\<lambda>log c. Inr (PDict [])"
        "[(PF_STACK_PRUNE, PBool True)]" None "[]"]
  show ?thesis
    by (auto simp: get_update_endpoint_Stack update_method_Stack s5)
qed

subsection \<open>Docker-proxied adapters\<close>

lemma bind_err_simps [simp]:
  "bind_err (Inl e) f = Inl e"
  "bind_err (Inr x) f = f x"
  by (simp_all add: bind_err_def)

lemma bind_lift_Inl: "bind_io (lift_io (Inl e)) f log = (Inl e, log)"
  by (simp add: bind_io_def lift_io_def)

lemma bind_lift_Inr: "bind_io (lift_io (Inr x)) f log = f x log"
  by (simp add: bind_io_def lift_io_def)

lemma bind_raise: "bind_io (raise_io e) f log = (Inl e, log)"
  by (simp add: bind_io_def raise_io_def)

lemma bind_return: "bind_io (return_io x) f log = f x log"
  by (simp add: bind_io_def return_io_def)

lemma bind_request:
  "bind_io (client_request srv c) f log =
     (case srv log c of Inl e \<Rightarrow> (Inl e, log @ [c]) | Inr v \<Rightarrow> f v (log @ [c]))"
  by (simp add: bind_io_def client_request_def split: sum.splits)

lemma run_lift: "lift_io m log = (m, log)"
  by (simp add: lift_io_def)

lemma run_raise: "raise_io e log = (Inl e, log)"
  by (simp add: raise_io_def)

lemma run_return: "return_io x log = (Inr x, log)"
  by (simp add: return_io_def)

lemmas bind_io_simps =
  bind_lift_Inl bind_lift_Inr bind_raise bind_return bind_request run_lift run_raise run_return

lemma docker_inits [simp]:
  "is_docker (BaseDockerCRUD_init E de nf idf rn)"
  "cls (BaseDockerCRUD_init E de nf idf rn) = BaseDockerCRUD"
  "endpoint_id (BaseDockerCRUD_init E de nf idf rn) = E"
  "docker_endpoint (BaseDockerCRUD_init E de nf idf rn) = de"
  "name_field (BaseDockerCRUD_init E de nf idf rn) = nf"
  "id_field (BaseDockerCRUD_init E de nf idf rn) = idf"
  "resource_name (BaseDockerCRUD_init E de nf idf rn) = rn"
  "is_docker (SwarmCRUD_init E)"
  "cls (SwarmCRUD_init E) = SwarmCRUD"
  "endpoint_id (SwarmCRUD_init E) = E"
  "docker_endpoint (SwarmCRUD_init E) = ''/swarm''"
  by (simp_all add: BaseDockerCRUD_init_def BaseCRUD_init_def SwarmCRUD_init_def is_docker_def)

lemma is_docker_cls: "is_docker self \<Longrightarrow> cls self = BaseDockerCRUD \<or> cls self = SwarmCRUD"
  by (simp add: is_docker_def)

lemma docker_endpoints:
  assumes "is_docker self" and "endpoint_id self \<noteq> PNone"
  defines "base \<equiv> ''/endpoints/'' @ py_str (endpoint_id self) @ ''/docker'' @ docker_endpoint self"
  shows "endpoint self = Inr base"
    and "get_create_endpoint self = Inr (base @ ''/create'')"
    and "get_update_endpoint self i = Inr (base @ ''/'' @ py_str i @ ''/update'')"
    and "get_delete_endpoint self i = Inr (base @ ''/'' @ py_str i)"
proof -
  show e: "endpoint self = Inr base"
    using assms by (simp add: endpoint_def)
  from is_docker_cls [OF assms(1)] e
  show "get_create_endpoint self = Inr (base @ ''/create'')"
    and "get_update_endpoint self i = Inr (base @ ''/'' @ py_str i @ ''/update'')"
    and "get_delete_endpoint self i = Inr (base @ ''/'' @ py_str i)"
    by (auto simp: get_create_endpoint_def get_update_endpoint_def get_delete_endpoint_def)
qed

lemma snd_bind_request:
  "snd (bind_io (client_request srv c) f log) = log @ [c] \<or>
   (\<exists>v. srv log c = Inr v \<and> snd (bind_io (client_request srv c) f log) = snd (f v (log @ [c])))"
  by (simp add: bind_io_simps split: sum.splits)

lemma one_call:
  assumes "\<And>v. snd (f v (log @ [c])) = log @ [c]"
  shows "snd (bind_io (client_request srv c) f log) = log @ [c]"
  using assms by (simp add: bind_io_simps split: sum.splits)

lemma docker_calls:
  assumes d: "is_docker self" and e: "endpoint_id self \<noteq> PNone"
  defines "base \<equiv> ''/endpoints/'' @ py_str (endpoint_id self) @ ''/docker'' @ docker_endpoint self"
  shows "snd (list_items srv self params log)
           = log @ [\<lparr>c_method = GET, c_endpoint = base, c_params = params, c_data = None,
                     c_body_format = None\<rparr>]"
    and "i \<noteq> PNone \<Longrightarrow> snd (get_item_by_id srv self i log)
           = log @ [\<lparr>c_method = GET, c_endpoint = base @ ''/'' @ py_str i, c_params = None,
                     c_data = None, c_body_format = None\<rparr>]"
    and "cls self \<noteq> SwarmCRUD \<Longrightarrow> truthy name \<Longrightarrow>
         snd (create_item srv self name item_data bf params log)
           = log @ [\<lparr>c_method = POST, c_endpoint = base @ ''/create'', c_params = params,
                     c_data = Some (dict_update [(name_field self, name)] (or_empty item_data)),
                     c_body_format = bf\<rparr>]"
    and "cls self \<noteq> SwarmCRUD \<Longrightarrow> i \<noteq> PNone \<Longrightarrow>
         snd (update_item srv self i changes params log)
           = log @ [\<lparr>c_method = PUT, c_endpoint = base @ ''/'' @ py_str i @ ''/update'',
                     c_params = params, c_data = Some changes, c_body_format = None\<rparr>]"
    and "cls self \<noteq> SwarmCRUD \<Longrightarrow> i \<noteq> PNone \<Longrightarrow>
         snd (delete_item_by_id srv self i params log)
           = log @ [\<lparr>c_method = DELETE, c_endpoint = base @ ''/'' @ py_str i, c_params = params,
                     c_data = None, c_body_format = None\<rparr>]"
proof -
  note eps = docker_endpoints [OF d e, folded base_def]
  have m: "update_method self = PUT"
    using is_docker_cls [OF d] by (auto simp: update_method_def)
  show "snd (list_items srv self params log)
           = log @ [\<lparr>c_method = GET, c_endpoint = base, c_params = params, c_data = None,
                     c_body_format = None\<rparr>]"
    by (simp add: list_items_def client_get_def eps bind_io_simps split: sum.splits)
  show "i \<noteq> PNone \<Longrightarrow> snd (get_item_by_id srv self i log)
           = log @ [\<lparr>c_method = GET, c_endpoint = base @ ''/'' @ py_str i, c_params = None,
                     c_data = None, c_body_format = None\<rparr>]"
    by (simp add: get_item_by_id_def client_get_def eps bind_io_simps split: sum.splits)
  show "cls self \<noteq> SwarmCRUD \<Longrightarrow> truthy name \<Longrightarrow>
         snd (create_item srv self name item_data bf params log)
           = log @ [\<lparr>c_method = POST, c_endpoint = base @ ''/create'', c_params = params,
                     c_data = Some (dict_update [(name_field self, name)] (or_empty item_data)),
                     c_body_format = bf\<rparr>]"
    by (simp add: create_item_def client_post_def eps bind_io_simps split: sum.splits)
  show "cls self \<noteq> SwarmCRUD \<Longrightarrow> i \<noteq> PNone \<Longrightarrow>
         snd (update_item srv self i changes params log)
           = log @ [\<lparr>c_method = PUT, c_endpoint = base @ ''/'' @ py_str i @ ''/update'',
                     c_params = params, c_data = Some changes, c_body_format = None\<rparr>]"
    by (simp add: update_item_def eps m bind_io_simps split: sum.splits)
  show "cls self \<noteq> SwarmCRUD \<Longrightarrow> i \<noteq> PNone \<Longrightarrow>
         snd (delete_item_by_id srv self i params log)
           = log @ [\<lparr>c_method = DELETE, c_endpoint = base @ ''/'' @ py_str i, c_params = params,
                     c_data = None, c_body_format = None\<rparr>]"
    by (simp add: delete_item_by_id_def client_delete_def eps bind_io_simps split: sum.splits)
qed


lemma issuedI: "snd (op log) = log @ cs \<Longrightarrow> issued op log = cs"
  by (simp add: issued_def)

lemma underI:
  "snd (op log) = log @ cs \<Longrightarrow> (\<And>c. c \<in> set cs \<Longrightarrow> prefix p (c_endpoint c)) \<Longrightarrow> under p op log"
  by (simp add: under_def issuedI)

lemma docker_under:
  assumes d: "is_docker self" and e: "endpoint_id self \<noteq> PNone"
    and p: "prefix p (''/endpoints/'' @ py_str (endpoint_id self) @ ''/docker'' @ docker_endpoint self)"
  shows "under p (list_items srv self params) log"
    and "under p (get_item_by_id srv self i) log"
    and "under p (create_item srv self name item_data bf params) log"
    and "under p (update_item srv self i changes params) log"
    and "under p (delete_item_by_id srv self i params) log"
proof -
  note calls = docker_calls [OF d e]
  have q: "prefix p ((''/endpoints/'' @ py_str (endpoint_id self) @ ''/docker'' @ docker_endpoint self) @ rest)"
    for rest
    using p by (rule prefix_prefix)
  show "under p (list_items srv self params) log"
    by (rule underI [OF calls(1)]) (use p in simp)
  show "under p (get_item_by_id srv self i) log"
  proof (cases "i = PNone")
    case True
    then have "snd (get_item_by_id srv self i log) = log @ []"
      by (simp add: get_item_by_id_def run_raise)
    then show ?thesis by (rule underI) simp
  next
    case False
    show ?thesis
      by (rule underI [OF calls(2) [OF False]]) (use q in simp)
  qed
  show "under p (create_item srv self name item_data bf params) log"
  proof (cases "cls self \<noteq> SwarmCRUD \<and> truthy name")
    case False
    then have "snd (create_item srv self name item_data bf params log) = log @ []"
      by (auto simp: create_item_def run_raise run_return)
    then show ?thesis by (rule underI) simp
  next
    case True
    then have c: "cls self \<noteq> SwarmCRUD" and t: "truthy name" by simp_all
    show ?thesis
      by (rule underI [OF calls(3) [OF c t]]) (use q in simp)
  qed
  show "under p (update_item srv self i changes params) log"
  proof (cases "cls self \<noteq> SwarmCRUD \<and> i \<noteq> PNone")
    case False
    then have "snd (update_item srv self i changes params log) = log @ []"
      by (auto simp: update_item_def run_raise run_return)
    then show ?thesis by (rule underI) simp
  next
    case True
    then have c: "cls self \<noteq> SwarmCRUD" and t: "i \<noteq> PNone" by simp_all
    show ?thesis
      by (rule underI [OF calls(4) [OF c t]]) (use q in simp)
  qed
  show "under p (delete_item_by_id srv self i params) log"
  proof (cases "cls self \<noteq> SwarmCRUD \<and> i \<noteq> PNone")
    case False
    then have "snd (delete_item_by_id srv self i params log) = log @ []"
      by (auto simp: delete_item_by_id_def run_raise run_return)
    then show ?thesis by (rule underI) simp
  next
    case True
    then have c: "cls self \<noteq> SwarmCRUD" and t: "i \<noteq> PNone" by simp_all
    show ?thesis
      by (rule underI [OF calls(5) [OF c t]]) (use q in simp)
  qed
qed

lemma adapters_docker:
  assumes "self \<in> {DockerNetworkCRUD E, SwarmConfigCRUD E, SwarmSecretCRUD E, SwarmCRUD_init E}"
  shows "is_docker self" and "endpoint_id self = E"
    and "docker_endpoint self \<in> {''/networks'', ''/configs'', ''/secrets'', ''/swarm''}"
  using assms
  by (auto simp: DockerNetworkCRUD_def SwarmConfigCRUD_def SwarmSecretCRUD_def)

text \<open>
  Claim C4, as amended.  The adapters of the Docker-proxied resources (network, config,
  secret, swarm) with selected environment id \<open>E\<close> build every endpoint from the Docker
  subpath prefixed by \<^verbatim>\<open>/endpoints/{E}/docker\<close>: the collection, create, update and delete
  endpoints are as listed, and every call that list, get, create, update and delete add to
  the log has a path under \<^verbatim>\<open>/endpoints/{E}/docker/\<close>.  (The claim's prefix
  \<^verbatim>\<open>/environments/{E}/proxy/\<close> is not what the code builds.)
\<close>

theorem docker_proxied_paths:
  assumes a: "self \<in> {DockerNetworkCRUD E, SwarmConfigCRUD E, SwarmSecretCRUD E, SwarmCRUD_init E}"
    and e: "E \<noteq> PNone"
  shows "docker_endpoint self \<in> {''/networks'', ''/configs'', ''/secrets'', ''/swarm''}
       \<and> endpoint self = Inr (''/endpoints/'' @ py_str E @ ''/docker'' @ docker_endpoint self)
       \<and> get_create_endpoint self
           = Inr (''/endpoints/'' @ py_str E @ ''/docker'' @ docker_endpoint self @ ''/create'')
       \<and> get_update_endpoint self i
           = Inr (''/endpoints/'' @ py_str E @ ''/docker'' @ docker_endpoint self @ ''/''
                  @ py_str i @ ''/update'')
       \<and> get_delete_endpoint self i
           = Inr (''/endpoints/'' @ py_str E @ ''/docker'' @ docker_endpoint self @ ''/'' @ py_str i)
       \<and> (\<forall>op \<in> {list_items srv self params, get_item_by_id srv self i,
                    create_item srv self name item_data bf params,
                    update_item srv self i changes params,
                    delete_item_by_id srv self i params}.
            under (''/endpoints/'' @ py_str E @ ''/docker/'') op log)"
proof -
  note d = adapters_docker [OF a]
  from e d(2) have ne: "endpoint_id self \<noteq> PNone" by simp
  note eps = docker_endpoints [OF d(1) ne, unfolded d(2)]
  from d(3) have p: "prefix (''/endpoints/'' @ py_str E @ ''/docker/'')
      (''/endpoints/'' @ py_str (endpoint_id self) @ ''/docker'' @ docker_endpoint self)"
    unfolding d(2) by auto
  note u = docker_under [OF d(1) ne p]
  have ops: "\<forall>op \<in> {list_items srv self params, get_item_by_id srv self i,
                    create_item srv self name item_data bf params,
                    update_item srv self i changes params,
                    delete_item_by_id srv self i params}.
            under (''/endpoints/'' @ py_str E @ ''/docker/'') op log"
    by (intro ballI, elim insertE emptyE) (simp_all only: u)
  have paths:
    "endpoint self = Inr (''/endpoints/'' @ py_str E @ ''/docker'' @ docker_endpoint self)"
    "get_create_endpoint self
       = Inr (''/endpoints/'' @ py_str E @ ''/docker'' @ docker_endpoint self @ ''/create'')"
    "get_update_endpoint self i
       = Inr (''/endpoints/'' @ py_str E @ ''/docker'' @ docker_endpoint self @ ''/''
              @ py_str i @ ''/update'')"
    "get_delete_endpoint self i
       = Inr (''/endpoints/'' @ py_str E @ ''/docker'' @ docker_endpoint self @ ''/'' @ py_str i)"
    using eps by simp_all
  from d(3) paths ops show ?thesis by (intro conjI)
qed

theorem docker_proxied_paths_counterexample:
  "snd (list_items (\<lambda>log c. Inr (PList [])) (DockerNetworkCRUD (PInt 1)) None [])
     = [\<lparr>c_method = GET, c_endpoint = ''/endpoints/1/docker/networks'', c_params = None,
         c_data = None, c_body_format = None\<rparr>]
   \<and> \<not> (\<forall>c \<in> set (snd (list_items (\<lambda>log c. Inr (PList [])) (DockerNetworkCRUD (PInt 1)) None [])).
          prefix ''/environments/1/proxy/'' (c_endpoint c))"
proof -
  have s1: "str_int 1 = ''1''" by code_simp
  have "snd (list_items (\<lambda>log c. Inr (PList [])) (DockerNetworkCRUD (PInt 1)) None [])
     = [\<lparr>c_method = GET, c_endpoint = ''/endpoints/1/docker/networks'', c_params = None,
         c_data = None, c_body_format = None\<rparr>]"
    using docker_calls(1) [of "DockerNetworkCRUD (PInt 1)" "\<lambda>log c. Inr (PList [])" None "[]"]
    by (simp add: DockerNetworkCRUD_def s1)
  then show ?thesis by simp
qed

theorem docker_proxied_paths_witness:
  "DockerNetworkCRUD (PInt 1)
     \<in> {DockerNetworkCRUD (PInt 1), SwarmConfigCRUD (PInt 1), SwarmSecretCRUD (PInt 1),
        SwarmCRUD_init (PInt 1)}
   \<and> PInt 1 \<noteq> PNone
   \<and> get_delete_endpoint (DockerNetworkCRUD (PInt 1)) (PStr ''abc'') = Inr ''/endpoints/1/docker/networks/abc''
   \<and> under ''/endpoints/1/docker/''
        (create_item (\<lambda>log c. Inr (PDict [])) (DockerNetworkCRUD (PInt 1)) (PStr ''net'') None None None) []"
proof -
  have s1: "str_int 1 = ''1''" by code_simp
  have a: "DockerNetworkCRUD (PInt 1)
     \<in> {DockerNetworkCRUD (PInt 1), SwarmConfigCRUD (PInt 1), SwarmSecretCRUD (PInt 1),
        SwarmCRUD_init (PInt 1)}" by simp
  have e: "PInt 1 \<noteq> PNone" by simp
  from docker_proxied_paths [OF a e, of "PStr ''abc''" "\<lambda>log c. Inr (PDict [])" None
      "PStr ''net''" None None "[]" "[]"]
  show ?thesis
    by (simp add: s1 DockerNetworkCRUD_def)
qed

subsection \<open>The scoped proxy target\<close>





subsection \<open>Lookup by name\<close>


lemma filter_eq_dicts:
  "filter_eq k v (map PDict recs) = Inr (map PDict (filter (\<lambda>r. py_eq (dict_get r k) v) recs))"
  by (induction recs) simp_all

lemma apply_filters_dicts:
  "apply_filters f (map PDict recs)
     = Inr (map PDict (filter (\<lambda>r. \<forall>(k, v) \<in> set f. py_eq (dict_get r k) v) recs))"
proof (induction f arbitrary: recs)
  case Nil
  then show ?case by simp
next
  case (Cons p f)
  obtain k v where p: "p = (k, v)" by (cases p)
  show ?case
    by (simp add: p filter_eq_dicts Cons.IH conj_commute cong: conj_cong)
qed

lemma map_err_subscript:
  "\<forall>r \<in> set recs. k \<in> dict_keys r \<Longrightarrow>
   map_err (\<lambda>g. item_subscript g k) (map PDict recs) = Inr (map (\<lambda>r. dict_get r k) recs)"
proof (induction recs)
  case Nil
  then show ?case by simp
next
  case (Cons r recs)
  from Cons.prems have "k \<in> dict_keys r" by simp
  then have "map_of r k \<noteq> None"
    by (simp add: dict_keys_def map_of_eq_None_iff)
  then obtain v where "map_of r k = Some v"
    by auto
  with Cons show ?case
    by (simp add: dict_get_def)
qed

lemma select_by_name_dicts:
  "select_by_name self name filters (PList (map PDict recs)) =
     (case map PDict (filter (name_matches self name filters) recs) of
        [] \<Rightarrow> Inl (ItemNotExists (''Item '' @ sq @ py_str name @ sq @ '' does not exist.''))
      | [item] \<Rightarrow> Inr item
      | items \<Rightarrow> bind_err (map_err (\<lambda>g. item_subscript g (id_field self)) items)
                (\<lambda>ids. Inl (MultipleItemsReturned ''Multiple items found'' ids)))"
proof -
  have f: "(case filters of None \<Rightarrow> Inr (map PDict ms)
            | Some f \<Rightarrow> if f = [] then Inr (map PDict ms) else apply_filters f (map PDict ms))
        = Inr (map PDict (filter (\<lambda>r. \<forall>(k, v) \<in> set (or_empty filters). py_eq (dict_get r k) v) ms))"
    for ms
    by (cases filters) (simp_all add: or_empty_def apply_filters_dicts)
  have m: "filter (\<lambda>r. \<forall>(k, v) \<in> set (or_empty filters). py_eq (dict_get r k) v)
             (filter (\<lambda>r. py_eq (dict_get r (name_field self)) name) recs)
         = filter (name_matches self name filters) recs"
    by (simp add: name_matches_def [abs_def])
  show ?thesis
    unfolding select_by_name_def py_iter.simps bind_err_simps filter_eq_dicts f m
    by (simp split: list.splits)
qed

lemma select_by_name_multiple:
  assumes "2 \<le> length (filter (name_matches self name filters) recs)"
    and "\<forall>r \<in> set (filter (name_matches self name filters) recs). id_field self \<in> dict_keys r"
  shows "select_by_name self name filters (PList (map PDict recs)) =
     Inl (MultipleItemsReturned ''Multiple items found''
            (map (\<lambda>r. dict_get r (id_field self)) (filter (name_matches self name filters) recs)))"
proof -
  from assms(1) obtain a b rest where ms: "filter (name_matches self name filters) recs = a # b # rest"
    by (cases "filter (name_matches self name filters) recs" rule: list.exhaust [case_product list.exhaust])
       (auto simp: Suc_le_eq neq_Nil_conv)
  have "select_by_name self name filters (PList (map PDict recs)) =
      bind_err (map_err (\<lambda>g. item_subscript g (id_field self))
                  (map PDict (filter (name_matches self name filters) recs)))
        (\<lambda>ids. Inl (MultipleItemsReturned ''Multiple items found'' ids))"
    unfolding select_by_name_dicts by (simp add: ms)
  then show ?thesis
    by (simp add: map_err_subscript [OF assms(2)])
qed


lemma get_item_by_name_eq:
  assumes "truthy name"
    and "list_items srv self params log = (Inr all_items, log')"
  shows "get_item_by_name srv self name params filters log
           = (select_by_name self name filters all_items, log')"
  using assms by (simp add: get_item_by_name_def bind_io_def run_lift)

text \<open>
  Claim C1, as amended.  For every lookup with a non-empty (truthy) name: if the
  collection that \<open>list_items\<close> returns holds two or more records that match the name and
  the local filters, each carrying the id field, then \<open>get_item_by_name\<close> raises
  \<open>MultipleItemsReturned\<close> with exactly the ids of the matching records, in the order of
  the list response, and \<open>validate_single_item\<close> turns this into a fatal failure whose
  payload reports those ids as \<^verbatim>\<open>duplicate_ids\<close>.  Neither issues a call beyond the list.
\<close>

theorem ambiguous_name_refused:
  assumes "truthy name"
    and "list_items srv self params log = (Inr (PList (map PDict recs)), log')"
    and "2 \<le> length (filter (name_matches self name filters) recs)"
    and "\<forall>r \<in> set (filter (name_matches self name filters) recs). id_field self \<in> dict_keys r"
  shows "get_item_by_name srv self name params filters log
           = (Inl (MultipleItemsReturned ''Multiple items found''
                     (map (\<lambda>r. dict_get r (id_field self))
                        (filter (name_matches self name filters) recs))), log')
       \<and> validate_single_item srv self name operation params filters log
           = (Inl (FailJson
                     (''Cannot '' @ operation @ '' '' @ resource_name self @ '': Multiple ''
                        @ resource_name self @ ''s found with name '' @ sq @ py_str name @ sq
                        @ ''. '' @ ''Please use the Portainer UI to remove duplicates.'')
                     [(''duplicate_ids'',
                       PList (map (\<lambda>r. dict_get r (id_field self))
                                (filter (name_matches self name filters) recs)))]), log')"
proof -
  have g: "get_item_by_name srv self name params filters log
           = (Inl (MultipleItemsReturned ''Multiple items found''
                     (map (\<lambda>r. dict_get r (id_field self))
                        (filter (name_matches self name filters) recs))), log')"
    unfolding get_item_by_name_eq [OF assms(1,2)] select_by_name_multiple [OF assms(3,4)] ..
  then show ?thesis
    by (simp add: validate_single_item_def)
qed

theorem ambiguous_name_refused_witness:
  "validate_single_item
     (\<lambda>log c. Inr (PList [PDict [(''ID'', PInt 1), (''Name'', PStr ''test_tag'')],
                           PDict [(''ID'', PInt 3), (''Name'', PStr ''other'')],
                           PDict [(''ID'', PInt 2), (''Name'', PStr ''test_tag'')]]))
     TagCRUD (PStr ''test_tag'') ''retrieve'' None None []
   = (Inl (FailJson
        (''Cannot retrieve tag: Multiple tags found with name '' @ sq @ ''test_tag'' @ sq
           @ ''. Please use the Portainer UI to remove duplicates.'')
        [(''duplicate_ids'', PList [PInt 1, PInt 2])]),
      [\<lparr>c_method = GET, c_endpoint = ''/tags'', c_params = None, c_data = None,
        c_body_format = None\<rparr>])"
proof -
  let ?recs = "[[(''ID'', PInt 1), (''Name'', PStr ''test_tag'')],
                [(''ID'', PInt 3), (''Name'', PStr ''other'')],
                [(''ID'', PInt 2), (''Name'', PStr ''test_tag'')]]"
  let ?srv = "\<lambda>log c. Inr (PList (map PDict ?recs)) :: error + pyval"
  have t: "truthy (PStr ''test_tag'')" by simp
  have l: "list_items ?srv TagCRUD None [] =
      (Inr (PList (map PDict ?recs)),
       [\<lparr>c_method = GET, c_endpoint = ''/tags'', c_params = None, c_data = None,
         c_body_format = None\<rparr>])"
    by (simp add: list_items_def endpoint_def TagCRUD_def BaseCRUD_init_def is_docker_def
        client_get_def bind_io_simps process_response_def process_single_item_def)
  have f: "filter (name_matches TagCRUD (PStr ''test_tag'') None) ?recs
      = [[(''ID'', PInt 1), (''Name'', PStr ''test_tag'')],
         [(''ID'', PInt 2), (''Name'', PStr ''test_tag'')]]"
    by (simp add: name_matches_def TagCRUD_def BaseCRUD_init_def dict_get_def or_empty_def)
  have n: "2 \<le> length (filter (name_matches TagCRUD (PStr ''test_tag'') None) ?recs)"
    unfolding f by simp
  have i: "\<forall>r \<in> set (filter (name_matches TagCRUD (PStr ''test_tag'') None) ?recs).
      id_field TagCRUD \<in> dict_keys r"
    unfolding f by (simp add: TagCRUD_def BaseCRUD_init_def dict_keys_def)
  from ambiguous_name_refused [OF t l n i, of "''retrieve''"]
  show ?thesis
    unfolding f by (simp add: TagCRUD_def BaseCRUD_init_def dict_get_def)
qed

theorem ambiguous_name_refused_counterexample:
  "list_items
     (\<lambda>log c. Inr (PList [PDict [(''ID'', PInt 1), (''Name'', PStr [])],
                           PDict [(''ID'', PInt 2), (''Name'', PStr [])]]))
     TagCRUD None []
   = (Inr (PList [PDict [(''ID'', PInt 1), (''Name'', PStr [])],
                  PDict [(''ID'', PInt 2), (''Name'', PStr [])]]),
      [\<lparr>c_method = GET, c_endpoint = ''/tags'', c_params = None, c_data = None,
        c_body_format = None\<rparr>])
   \<and> filter (name_matches TagCRUD (PStr []) None)
        [[(''ID'', PInt 1), (''Name'', PStr [])], [(''ID'', PInt 2), (''Name'', PStr [])]]
     = [[(''ID'', PInt 1), (''Name'', PStr [])], [(''ID'', PInt 2), (''Name'', PStr [])]]
   \<and> get_item_by_name
        (\<lambda>log c. Inr (PList [PDict [(''ID'', PInt 1), (''Name'', PStr [])],
                              PDict [(''ID'', PInt 2), (''Name'', PStr [])]]))
        TagCRUD (PStr []) None None []
     = (Inl (ValueError ''Name should not be empty''), [])
   \<and> validate_single_item
        (\<lambda>log c. Inr (PList [PDict [(''ID'', PInt 1), (''Name'', PStr [])],
                              PDict [(''ID'', PInt 2), (''Name'', PStr [])]]))
        TagCRUD (PStr []) ''retrieve'' None None []
     = (Inl (ValueError ''Name should not be empty''), [])"
  by (simp add: list_items_def endpoint_def TagCRUD_def BaseCRUD_init_def is_docker_def
        client_get_def bind_io_simps process_response_def process_single_item_def
        name_matches_def dict_get_def or_empty_def get_item_by_name_def
        validate_single_item_def)

subsection \<open>Classification of responses\<close>

lemma prepare_request_args:
  "f_url (fst (prepare_request ext self method path params data bf))
     = request_url ext self path params"
  "f_method (fst (prepare_request ext self method path params data bf)) = method_value method"
  by (simp_all add: prepare_request_def Let_def split: prod.splits body_format.splits option.splits)

text \<open>
  Claim C6, as amended.  A request made without \<^verbatim>\<open>return_info\<close> is classified by the
  status that \<^verbatim>\<open>fetch_url\<close> reports: exactly the statuses 200, 201 and 204 are successes,
  which return the parsed JSON body (\<^verbatim>\<open>None\<close> when there is no body or an empty one; a body
  that does not parse raises what \<^verbatim>\<open>json.loads\<close> raises); every other status, so every
  non-2xx status and also 202, 203 and 205 to 299, raises \<open>PortainerApiError\<close> carrying the
  status, the response body, the requested URL and the method.
\<close>

theorem make_request_classification:
  assumes "fetch_url ext (fst (prepare_request ext self method path params data bf)) = (resp, nfo)"
  shows "fst (make_request ext self method path False params data bf) =
     (if i_status nfo = 200 \<or> i_status nfo = 201 \<or> i_status nfo = 204 then
        (case resp of
           None \<Rightarrow> Inr (Parsed PNone)
         | Some body \<Rightarrow>
             if body = [] then Inr (Parsed PNone)
             else (case json_loads ext body of Inl e \<Rightarrow> Inl e | Inr v \<Rightarrow> Inr (Parsed v)))
      else Inl (PortainerApiError
                 \<lparr>ae_message = i_msg nfo, ae_status = i_status nfo,
                  ae_body = (case i_body nfo of None \<Rightarrow> [] | Some b \<Rightarrow> b),
                  ae_url = request_url ext self path params,
                  ae_method = method_value method, ae_data = or_empty data\<rparr>))
   \<and> (i_status nfo < 200 \<or> 300 \<le> i_status nfo \<longrightarrow>
        (\<exists>e. fst (make_request ext self method path False params data bf) = Inl (PortainerApiError e)
             \<and> ae_status e = i_status nfo \<and> ae_url e = request_url ext self path params
             \<and> ae_method e = method_value method
             \<and> ae_body e = (case i_body nfo of None \<Rightarrow> [] | Some b \<Rightarrow> b)))
   \<and> f_url (fst (prepare_request ext self method path params data bf))
        = request_url ext self path params
   \<and> f_method (fst (prepare_request ext self method path params data bf)) = method_value method"
proof -
  obtain args self' where p: "prepare_request ext self method path params data bf = (args, self')"
    by (cases "prepare_request ext self method path params data bf")
  from assms p have f: "fetch_url ext args = (resp, nfo)" by simp
  have m: "fst (make_request ext self method path False params data bf) =
     (if i_status nfo = 200 \<or> i_status nfo = 201 \<or> i_status nfo = 204 then
        (case resp of
           None \<Rightarrow> Inr (Parsed PNone)
         | Some body \<Rightarrow>
             if body = [] then Inr (Parsed PNone)
             else (case json_loads ext body of Inl e \<Rightarrow> Inl e | Inr v \<Rightarrow> Inr (Parsed v)))
      else Inl (PortainerApiError
                 \<lparr>ae_message = i_msg nfo, ae_status = i_status nfo,
                  ae_body = (case i_body nfo of None \<Rightarrow> [] | Some b \<Rightarrow> b),
                  ae_url = request_url ext self path params,
                  ae_method = method_value method, ae_data = or_empty data\<rparr>))"
    by (simp add: make_request_def p f split: option.splits sum.splits)
  have n: "i_status nfo < 200 \<or> 300 \<le> i_status nfo \<Longrightarrow>
      \<not> (i_status nfo = 200 \<or> i_status nfo = 201 \<or> i_status nfo = 204)"
    by arith
  show ?thesis
    unfolding m prepare_request_args using n by simp
qed


lemma demo_request_url:
  "request_url (demo_ext st) demo_client path None = ''https://portainer.example.com/api'' @ path"
  by (simp add: request_url_def demo_client_def or_empty_def)

lemma demo_prepare_request:
  "prepare_request (demo_ext st) demo_client m path None None None
     = (\<lparr>f_url = ''https://portainer.example.com/api'' @ path, f_method = method_value m,
         f_headers = [], f_data = Some ''{}'', f_timeout = 30\<rparr>, demo_client)"
  by (simp add: prepare_request_def demo_request_url)
     (simp add: demo_ext_def demo_client_def or_empty_def)

lemma demo_fetch_url:
  "fetch_url (demo_ext st) a
     = (Some ''{}'', \<lparr>i_status = st, i_msg = ''msg'', i_body = Some ''body''\<rparr>)"
  by (simp add: demo_ext_def)

lemma demo_json_loads: "json_loads (demo_ext st) body = Inr (PDict [])"
  by (simp add: demo_ext_def)

theorem make_request_classification_counterexample:
  "fst (make_request (demo_ext 202) demo_client POST ''/stacks/5/git'' False None None None)
     = Inl (PortainerApiError
             \<lparr>ae_message = ''msg'', ae_status = 202, ae_body = ''body'',
              ae_url = ''https://portainer.example.com/api/stacks/5/git'',
              ae_method = ''POST'', ae_data = []\<rparr>)"
  by (simp add: make_request_def demo_prepare_request demo_request_url demo_fetch_url or_empty_def)

theorem make_request_classification_witness:
  "fst (make_request (demo_ext 201) demo_client POST ''/tags'' False None None None)
     = Inr (Parsed (PDict []))
   \<and> fst (make_request (demo_ext 404) demo_client GET ''/tags/9'' False None None None)
     = Inl (PortainerApiError
             \<lparr>ae_message = ''msg'', ae_status = 404, ae_body = ''body'',
              ae_url = ''https://portainer.example.com/api/tags/9'',
              ae_method = ''GET'', ae_data = []\<rparr>)"
  using make_request_classification [OF demo_fetch_url, of 201 demo_client POST "''/tags''" None None None]
        make_request_classification [OF demo_fetch_url, of 404 demo_client GET "''/tags/9''" None None None]
  by (simp add: demo_json_loads demo_request_url or_empty_def)

subsection \<open>The config module: update without force\<close>

lemma get_raw_content_config [simp]:
  "get_raw_content env (self\<lparr>cm_config := c\<rparr>) = get_raw_content env self"
  "get_raw_content env (self\<lparr>cm_old_config := c\<rparr>) = get_raw_content env self"
  by (simp_all add: get_raw_content_def)

lemma get_config_data_config [simp]:
  "get_config_data env (self\<lparr>cm_config := c\<rparr>) = get_config_data env self"
  "get_config_data env (self\<lparr>cm_old_config := c\<rparr>) = get_config_data env self"
  by (simp_all add: get_config_data_def Let_def cong: if_cong)


lemma list_items_gets:
  "\<exists>cs. snd (list_items srv self params log) = log @ cs \<and> (\<forall>c \<in> set cs. c_method c = GET)"
  by (cases "endpoint self")
     (auto simp: list_items_def client_get_def bind_io_simps split: sum.splits)

lemma get_item_by_id_gets:
  "\<exists>cs. snd (get_item_by_id srv self i log) = log @ cs \<and> (\<forall>c \<in> set cs. c_method c = GET)"
  by (cases "endpoint self")
     (auto simp: get_item_by_id_def client_get_def bind_io_simps split: sum.splits)

lemma get_item_by_name_gets:
  "\<exists>cs. snd (get_item_by_name srv self name params filters log) = log @ cs
        \<and> (\<forall>c \<in> set cs. c_method c = GET)"
proof (cases "truthy name")
  case False
  then show ?thesis by (simp add: get_item_by_name_def run_raise)
next
  case True
  obtain r l where l: "list_items srv self params log = (r, l)"
    by (cases "list_items srv self params log")
  with list_items_gets [of srv self params log]
  obtain cs where cs: "l = log @ cs" "\<forall>c \<in> set cs. c_method c = GET" by auto
  from True l have "snd (get_item_by_name srv self name params filters log) = l"
    by (cases r) (simp_all add: get_item_by_name_def bind_io_def run_lift)
  with cs show ?thesis by blast
qed

lemma validate_single_item_gets:
  "\<exists>cs. snd (validate_single_item srv self name operation params filters log) = log @ cs
        \<and> (\<forall>c \<in> set cs. c_method c = GET)"
proof -
  have "snd (validate_single_item srv self name operation params filters log)
      = snd (get_item_by_name srv self name params filters log)"
    by (simp add: validate_single_item_def split: prod.splits sum.splits error.splits)
  with get_item_by_name_gets [of srv self name params filters log] show ?thesis by simp
qed

lemma get_config_gets:
  "\<exists>cs. snd (get_config srv self log) = log @ cs \<and> (\<forall>c \<in> set cs. c_method c = GET)"
  using validate_single_item_gets get_item_by_id_gets by (simp add: get_config_def)


lemma set_result_fields [simp]:
  "cm_config (set_result s k v) = cm_config s"
  "cm_old_config (set_result s k v) = cm_old_config s"
  "cm_diff_mode (set_result s k v) = cm_diff_mode s"
  "cm_check_mode (set_result s k v) = cm_check_mode s"
  "cm_warnings (set_result s k v) = cm_warnings s"
  "cm_results (set_result s k v) = dict_set (cm_results s) k v"
  by (simp_all add: set_result_def)

lemma ensure_present_skipped:
  assumes "cm_config self = PDict existing" and "existing \<noteq> []"
    and "get_config_data env self = Inr desired"
    and "needs_update existing desired None \<noteq> []"
    and "\<not> cm_force self"
  shows "ensure_present env srv self log =
     (Inr (set_result
             (self\<lparr>cm_warnings := cm_warnings self
                @ [''The content of the config was not updated. ''
                   @ ''In order to recreate the config use force: true.'']\<rparr>)
             ''msg'' (PStr ''Config already exists. Update skipped.'')), log)"
  using assms
  by (simp add: ensure_present_def needs_update_any_def bind_io_simps)

text \<open>
  Claim C7.  For the config operation with target state \<^verbatim>\<open>present\<close>: when the lookup finds
  an existing config, the desired data differ from it (the change-set is not empty) and
  \<^verbatim>\<open>force\<close> is not set, the operation completes; \<^verbatim>\<open>changed\<close> stays \<^verbatim>\<open>False\<close>, the message
  is \<^verbatim>\<open>Config already exists. Update skipped.\<close>, the existing record is reported, a warning
  tells how to force the update, and the only calls issued are the \<^verbatim>\<open>GET\<close> calls of the
  lookup: \<open>ensure_present\<close> itself issues none, so no delete and no create.  This holds in
  check mode and outside it, with and without diff mode.
\<close>

theorem config_update_skipped:
  assumes st: "cm_state self = ''present''"
    and look: "get_config srv self log = (Inr (PDict existing), log')"
    and ex: "existing \<noteq> []"
    and data: "get_config_data env self = Inr desired"
    and diff: "needs_update existing desired None \<noteq> []"
    and nf: "\<not> cm_force self"
    and res: "cm_results self = [(''changed'', PBool False)]"
  shows "\<exists>self'. config_call env srv self log = (Inr self', log')
          \<and> map_of (cm_results self') ''changed'' = Some (PBool False)
          \<and> map_of (cm_results self') ''msg'' = Some (PStr ''Config already exists. Update skipped.'')
          \<and> map_of (cm_results self') ''config'' = Some (PDict existing)
          \<and> cm_config self' = PDict existing
          \<and> cm_warnings self' = cm_warnings self
                @ [''The content of the config was not updated. ''
                   @ ''In order to recreate the config use force: true.'']
          \<and> (\<exists>cs. log' = log @ cs \<and> (\<forall>c \<in> set cs. c_method c = GET))
          \<and> (\<forall>l. snd (ensure_present env srv
                          (self\<lparr>cm_config := PDict existing, cm_old_config := PDict existing\<rparr>) l) = l)"
proof -
  define self1 where "self1 = self\<lparr>cm_config := PDict existing, cm_old_config := PDict existing\<rparr>"
  define self2 where "self2 = set_result
             (self1\<lparr>cm_warnings := cm_warnings self1
                @ [''The content of the config was not updated. ''
                   @ ''In order to recreate the config use force: true.'']\<rparr>)
             ''msg'' (PStr ''Config already exists. Update skipped.'')"
  have c1: "cm_config self1 = PDict existing" and f1: "\<not> cm_force self1"
    and s1: "cm_state self1 = ''present''" and d1: "get_config_data env self1 = Inr desired"
    using nf st data by (simp_all add: self1_def)
  have ep: "ensure_present env srv self1 l = (Inr self2, l)" for l
    unfolding self2_def by (rule ensure_present_skipped [OF c1 ex d1 diff f1])
  have c2: "cm_config self2 = PDict existing" and o2: "cm_old_config self2 = PDict existing"
    and r2: "cm_results self2 = [(''changed'', PBool False),
                                  (''msg'', PStr ''Config already exists. Update skipped.'')]"
    and w2: "cm_warnings self2 = cm_warnings self
                @ [''The content of the config was not updated. ''
                   @ ''In order to recreate the config use force: true.'']"
    using res
    by (simp_all add: self2_def self1_def dict_set_def)
  define self3 where "self3 = set_result self2 ''config'' (PDict existing)"
  define self4 where "self4 = (if cm_diff_mode self3
      then set_result self3 ''diff''
             (PDict [(''before'', PDict (sanitize_for_diff existing None)),
                     (''after'', PDict (sanitize_for_diff (dict_update existing existing) None))])
      else self3)"
  have sf: "config_state_function env srv self1 log' = (Inr self2, log')"
    by (simp add: config_state_function_def s1 ep)
  have rp: "config_report env self2 log' = (Inr self4, log')"
    using ex
    by (simp add: config_report_def c2 o2 bind_io_simps Let_def self3_def self4_def
        build_diff_def dict_or_empty_def)
  have call: "config_call env srv self log = (Inr self4, log')"
    by (simp add: config_call_def bind_io_def look self1_def [symmetric] sf rp)
  have r4: "map_of (cm_results self4) ''changed'' = Some (PBool False)"
    "map_of (cm_results self4) ''msg'' = Some (PStr ''Config already exists. Update skipped.'')"
    "map_of (cm_results self4) ''config'' = Some (PDict existing)"
    "cm_config self4 = PDict existing"
    "cm_warnings self4 = cm_warnings self
                @ [''The content of the config was not updated. ''
                   @ ''In order to recreate the config use force: true.'']"
    by (simp_all add: self4_def self3_def dict_set_def r2 c2 w2)
  from get_config_gets [of srv self log] look
  have g: "\<exists>cs. log' = log @ cs \<and> (\<forall>c \<in> set cs. c_method c = GET)" by simp
  from ep have "\<forall>l. snd (ensure_present env srv self1 l) = l" by simp
  with call r4 g show ?thesis
    unfolding self1_def by blast
qed

theorem config_update_skipped_witness:
  "\<exists>self'. config_call demo_config_env one_config
        (config_manager_init (PStr ''test_config'') PNone PNone (PStr ''Config data'') False (PInt 1)
           False ''present'' False False) []
      = (Inr self',
         [\<lparr>c_method = GET, c_endpoint = ''/endpoints/1/docker/configs'', c_params = None,
           c_data = None, c_body_format = None\<rparr>])
     \<and> map_of (cm_results self') ''changed'' = Some (PBool False)
     \<and> map_of (cm_results self') ''msg'' = Some (PStr ''Config already exists. Update skipped.'')"
proof -
  let ?self = "config_manager_init (PStr ''test_config'') PNone PNone (PStr ''Config data'') False
      (PInt 1) False ''present'' False False"
  let ?existing = "[(PF_CONFIG_ID, PInt 1), (PF_CONFIG_NAME, PStr ''test_config''),
      (PF_CONFIG_DATA, PStr ''Config data'')]"
  let ?desired = "[(PF_CONFIG_NAME, PStr ''test_config''), (PF_CONFIG_DATA, PStr ''Q29uZmlnIGRhdGE='')]"
  have st: "cm_state ?self = ''present''"
    by (simp add: config_manager_init_def)
  have look: "get_config one_config ?self [] =
      (Inr (PDict ?existing),
       [\<lparr>c_method = GET, c_endpoint = ''/endpoints/1/docker/configs'', c_params = None,
         c_data = None, c_body_format = None\<rparr>])"
    by code_simp
  have ex: "?existing \<noteq> []" by simp
  have data: "get_config_data demo_config_env ?self = Inr ?desired"
    by code_simp
  have diff: "needs_update ?existing ?desired None \<noteq> []"
    by code_simp
  have nf: "\<not> cm_force ?self"
    by (simp add: config_manager_init_def)
  have res: "cm_results ?self = [(''changed'', PBool False)]"
    by (simp add: config_manager_init_def)
  from config_update_skipped [OF st look ex data diff nf res]
  show ?thesis by blast
qed

end
